theory Spec2Isabelle
  imports Complex_Main "HOL-Library.AList"
begin

section \<open>JavaScript values\<close>

text \<open>
  The two entry points, \<^verbatim>\<open>app.js\<close> (image bytes inside the record) and
  \<^verbatim>\<open>server.js\<close> (image on disk, record holds a path), are Express route handlers over
  one Mongoose model each. The handlers are translated line by line; the library calls
  they make (multer, Mongoose, the Date constructor, Express's error handling) are
  modelled by the definitions of this section and the next ones, each with the
  behaviour it stands for written beside it.

  A request is a multipart form: text fields, each a string, and at most one file in
  the field \<^verbatim>\<open>image\<close>. A Buffer is a list of bytes (\<^typ>\<open>char\<close> is a byte). A Date is
  its time value, milliseconds since the epoch. The database answers every call; the
  only errors it raises are the ones written out below (a failed cast, a failed
  validation, a duplicate identifier, a negative skip).
\<close>

type_synonym bytes = string

datatype jsval = Undefined | Null | Str string | Buf bytes | DateVal int

datatype jsnumber = NaN | Num int

text \<open>
  What the Date constructor makes of a string is fixed here for the date-only ISO form
  \<^verbatim>\<open>YYYY-MM-DD\<close>, as Node's engine reads it: the month must be 1 to 12 and the day 1 to 31,
  whatever the month, and the time value is that of day \<^verbatim>\<open>DD\<close> counted from the first
  of the month (so a day past the month's end runs into the next month). Every other
  string is left to the runtime, a parameter of the model: \<open>dateOther\<close> is what
  \<^verbatim>\<open>new Date(s)\<close> makes of it, \<open>castDateOther\<close> what the schema's Date cast makes of
  it, and \<open>None\<close> is an Invalid Date.
\<close>

record runtime =
  dateOther :: "string \<Rightarrow> int option"
  castDateOther :: "string \<Rightarrow> int option"

definition isDigit :: "char \<Rightarrow> bool" where
  "isDigit c = (c \<in> set ''0123456789'')"

definition digitVal :: "char \<Rightarrow> int" where
  "digitVal c = int (of_char c) - 48"

definition decimal :: "string \<Rightarrow> int" where
  "decimal s = foldl (\<lambda>a c. 10 * a + digitVal c) 0 s"

definition isoShape :: "string \<Rightarrow> bool" where
  "isoShape s =
     (length s = 10 \<and> s ! 4 = CHR ''-'' \<and> s ! 7 = CHR ''-'' \<and>
      list_all isDigit (take 4 s @ take 2 (drop 5 s) @ drop 8 s))"

definition msPerDay :: int where
  "msPerDay = 86400000"

definition MakeDay :: "int \<Rightarrow> int \<Rightarrow> int \<Rightarrow> int" where
  \<comment> \<open>days since 1970-01-01 of day \<open>d\<close> counted from the first of month \<open>m\<close> (1 to 12) of year \<open>y\<close>\<close>
  "MakeDay y m d =
     (let y' = (if m \<le> 2 then y - 1 else y);
          era = y' div 400;
          yoe = y' - era * 400;
          mp = (m + 9) mod 12;
          doy = (153 * mp + 2) div 5 + d - 1;
          doe = yoe * 365 + yoe div 4 - yoe div 100 + doy
      in era * 146097 + doe - 719468)"

definition isoDate :: "string \<Rightarrow> int option" where
  "isoDate s =
     (let y = decimal (take 4 s); m = decimal (take 2 (drop 5 s)); d = decimal (drop 8 s)
      in if 1 \<le> m \<and> m \<le> 12 \<and> 1 \<le> d \<and> d \<le> 31
         then Some (msPerDay * MakeDay y m d) else None)"

definition Date_new :: "runtime \<Rightarrow> string \<Rightarrow> int option" where
  \<comment> \<open>\<^verbatim>\<open>new Date(s)\<close>; \<open>None\<close> when \<^verbatim>\<open>isNaN\<close> holds of the result\<close>
  "Date_new rt s = (if isoShape s then isoDate s else dateOther rt s)"

definition startsWith :: "string \<Rightarrow> string \<Rightarrow> bool" where
  "startsWith s p = (take (length p) s = p)"

definition digitChar :: "nat \<Rightarrow> char" where
  "digitChar n = ''0123456789'' ! n"

function showNat :: "nat \<Rightarrow> string" where
  \<comment> \<open>a number inside a template literal\<close>
  "showNat n =
     (if n < 10 then [digitChar n]
      else showNat (n div 10) @ [digitChar (n mod 10)])"
  by pat_completeness auto
termination
  by (relation "measure id") auto

declare showNat.simps [simp del]

definition b64char :: "nat \<Rightarrow> char" where
  "b64char n =
     ''ABCDEFGHIJKLMNOPQRSTUVWXYZabcdefghijklmnopqrstuvwxyz0123456789+/'' ! n"

fun base64 :: "bytes \<Rightarrow> string" where
  \<comment> \<open>\<^verbatim>\<open>buffer.toString("base64")\<close>\<close>
  "base64 [] = []"
| "base64 [a] =
     (let x = (of_char a :: nat)
      in [b64char (x div 4), b64char ((x mod 4) * 16), CHR ''='', CHR ''=''])"
| "base64 [a, b] =
     (let x = (of_char a :: nat); y = (of_char b :: nat)
      in [b64char (x div 4), b64char ((x mod 4) * 16 + y div 16),
          b64char ((y mod 16) * 4), CHR ''=''])"
| "base64 (a # b # c # rest) =
     (let x = (of_char a :: nat); y = (of_char b :: nat); z = (of_char c :: nat)
      in [b64char (x div 4), b64char ((x mod 4) * 16 + y div 16),
          b64char ((y mod 16) * 4 + z div 64), b64char (z mod 64)] @ base64 rest)"

section \<open>The Mongoose model\<close>

text \<open>
  A stored document is its \<^verbatim>\<open>_id\<close> and its fields in order. A collection is the list of
  its documents in insertion order, which is the order \<^verbatim>\<open>find()\<close> returns them in.
  The upload directory of \<^verbatim>\<open>server.js\<close> is part of the state: file name to content.
\<close>

record doc =
  oid :: nat
  props :: "(string \<times> jsval) list"

record state =
  docs :: "doc list"
  uploads :: "(string \<times> bytes) list"

datatype stype = SString | SDate | SBuffer

type_synonym schema = "(string \<times> stype \<times> bool) list"

text \<open>The errors the handlers catch; a ValidationError carries the paths that failed.\<close>

datatype jserror =
    ValidationError "string set"
  | CastError string
  | MongoServerError string
  | TypeError
  | UploadError string

definition castDate :: "runtime \<Rightarrow> string \<Rightarrow> int option" where
  \<comment> \<open>Mongoose's cast of a non-empty string to a Date\<close>
  "castDate rt s = (if isoShape s then isoDate s else castDateOther rt s)"

fun castValue :: "runtime \<Rightarrow> stype \<Rightarrow> jsval \<Rightarrow> jsval option" where
  \<comment> \<open>\<open>None\<close> is a CastError. The last equation covers values neither entry point passes.\<close>
  "castValue rt ty Undefined = Some Undefined"
| "castValue rt ty Null = Some Null"
| "castValue rt SString (Str s) = Some (Str s)"
| "castValue rt SDate (Str s) =
     (if s = [] then Some Null else map_option DateVal (castDate rt s))"
| "castValue rt SDate (DateVal t) = Some (DateVal t)"
| "castValue rt SBuffer (Buf b) = Some (Buf b)"
| "castValue rt SBuffer (Str s) = Some (Buf s)"
| "castValue rt ty v = None"

fun checkRequired :: "stype \<Rightarrow> jsval \<Rightarrow> bool" where
  \<comment> \<open>the \<^verbatim>\<open>required\<close> validators: a string that is not empty, a date, a buffer that is not empty\<close>
  "checkRequired SString (Str s) = (s \<noteq> [])"
| "checkRequired SDate (DateVal t) = True"
| "checkRequired SBuffer (Buf b) = (b \<noteq> [])"
| "checkRequired ty v = False"

definition getField :: "(string \<times> jsval) list \<Rightarrow> string \<Rightarrow> jsval" where
  "getField obj k = (case map_of obj k of None \<Rightarrow> Undefined | Some v \<Rightarrow> v)"

definition pathFails :: "runtime \<Rightarrow> (string \<times> jsval) list \<Rightarrow> string \<times> stype \<times> bool \<Rightarrow> bool" where
  "pathFails rt obj p =
     (case p of (k, ty, req) \<Rightarrow>
        (case castValue rt ty (getField obj k) of
           None \<Rightarrow> True
         | Some v \<Rightarrow> req \<and> \<not> checkRequired ty v))"

definition pathField :: "runtime \<Rightarrow> (string \<times> jsval) list \<Rightarrow> string \<times> stype \<times> bool \<Rightarrow> (string \<times> jsval) option" where
  "pathField rt obj p =
     (case p of (k, ty, req) \<Rightarrow>
        (case castValue rt ty (getField obj k) of
           None \<Rightarrow> None
         | Some v \<Rightarrow> if v = Undefined then None else Some (k, v)))"

definition findById :: "state \<Rightarrow> nat \<Rightarrow> doc option" where
  "findById st i = find (\<lambda>d. oid d = i) (docs st)"

definition Model_save :: "runtime \<Rightarrow> schema \<Rightarrow> state \<Rightarrow> nat \<Rightarrow> (string \<times> jsval) list \<Rightarrow> (jserror + doc) \<times> state" where
  \<comment> \<open>\<^verbatim>\<open>new Employee(obj).save()\<close>, with \<open>i\<close> the ObjectId the constructor generated:
      validation first, then the insert, which the unique index on \<^verbatim>\<open>_id\<close> can refuse\<close>
  "Model_save rt sch st i obj =
     (let errs = map fst (filter (pathFails rt obj) sch)
      in if errs \<noteq> [] then (Inl (ValidationError (set errs)), st)
         else if findById st i \<noteq> None then (Inl (MongoServerError ''E11000 duplicate key''), st)
         else (let d = \<lparr>oid = i, props = List.map_filter (pathField rt obj) sch\<rparr>
               in (Inr d, st\<lparr>docs := docs st @ [d]\<rparr>)))"

fun castUpdate :: "runtime \<Rightarrow> schema \<Rightarrow> (string \<times> jsval) list \<Rightarrow> jserror + (string \<times> jsval) list" where
  \<comment> \<open>the update document as Mongoose sends it: keys outside the schema are dropped
      (strict mode), keys whose value is \<^verbatim>\<open>undefined\<close> are dropped (Mongoose 6 and
      later; an update runs no validators), the rest are cast\<close>
  "castUpdate rt sch [] = Inr []"
| "castUpdate rt sch ((k, v) # us) =
     (case map_of sch k of
        None \<Rightarrow> castUpdate rt sch us
      | Some (ty, req) \<Rightarrow>
          if v = Undefined then castUpdate rt sch us
          else (case castValue rt ty v of
                  None \<Rightarrow> Inl (CastError k)
                | Some v' \<Rightarrow>
                    (case castUpdate rt sch us of
                       Inl e \<Rightarrow> Inl e
                     | Inr r \<Rightarrow> Inr ((k, v') # r))))"

definition applySet :: "(string \<times> jsval) list \<Rightarrow> (string \<times> jsval) list \<Rightarrow> (string \<times> jsval) list" where
  \<comment> \<open>\<^verbatim>\<open>$set\<close>: each key replaced in place, or added\<close>
  "applySet sets fs = fold (\<lambda>(k, v). AList.update k v) sets fs"

fun replaceDoc :: "nat \<Rightarrow> doc \<Rightarrow> doc list \<Rightarrow> doc list" where
  "replaceDoc i d' [] = []"
| "replaceDoc i d' (d # ds) = (if oid d = i then d' # ds else d # replaceDoc i d' ds)"

fun removeDoc :: "nat \<Rightarrow> doc list \<Rightarrow> doc list" where
  "removeDoc i [] = []"
| "removeDoc i (d # ds) = (if oid d = i then ds else d # removeDoc i ds)"

definition findByIdAndUpdate :: "runtime \<Rightarrow> schema \<Rightarrow> state \<Rightarrow> nat \<Rightarrow> (string \<times> jsval) list \<Rightarrow> (jserror + doc option) \<times> state" where
  \<comment> \<open>with \<^verbatim>\<open>{ new: true }\<close>: the document after the update, or \<^verbatim>\<open>null\<close>\<close>
  "findByIdAndUpdate rt sch st i ups =
     (case castUpdate rt sch ups of
        Inl e \<Rightarrow> (Inl e, st)
      | Inr sets \<Rightarrow>
          (case findById st i of
             None \<Rightarrow> (Inr None, st)
           | Some d \<Rightarrow>
               (let d' = d\<lparr>props := applySet sets (props d)\<rparr>
                in (Inr (Some d'), st\<lparr>docs := replaceDoc i d' (docs st)\<rparr>))))"

definition findByIdAndDelete :: "state \<Rightarrow> nat \<Rightarrow> doc option \<times> state" where
  "findByIdAndDelete st i =
     (case findById st i of
        None \<Rightarrow> (None, st)
      | Some d \<Rightarrow> (Some d, st\<lparr>docs := removeDoc i (docs st)\<rparr>))"

definition limitDocs :: "int \<Rightarrow> doc list \<Rightarrow> doc list" where
  \<comment> \<open>\<^verbatim>\<open>.limit(n)\<close>: 0 is no limit, a negative limit is its absolute value\<close>
  "limitDocs n ds = (if n = 0 then ds else take (nat \<bar>n\<bar>) ds)"

definition ceilDiv :: "int \<Rightarrow> int \<Rightarrow> int" where
  \<comment> \<open>\<^verbatim>\<open>Math.ceil(a / b)\<close> for \<open>b \<noteq> 0\<close>\<close>
  "ceilDiv a b = - ((- a) div b)"

section \<open>Requests and responses\<close>

record upload =
  originalname :: string
  mimetype :: string
  content :: bytes

text \<open>
  The path parameter \<^verbatim>\<open>:id\<close> either casts to an ObjectId (kept with its text, which
  the messages of \<^verbatim>\<open>app.js\<close> quote) or does not, and then the query is rejected.
\<close>

datatype idparam = ObjectId nat string | NotObjectId string

record listing =
  totalEmployees :: nat
  totalPages :: "int option"
  currentPage :: int
  employees :: "doc list"

datatype payload =
    Message string
  | Failure string jserror
  | Document doc
  | Documents "doc list"
  | Page listing
  | Unhandled jserror

record response =
  status :: nat
  payload :: payload

definition respond :: "nat \<Rightarrow> payload \<Rightarrow> response" where
  "respond c p = \<lparr>status = c, payload = p\<rparr>"

definition falsy :: "string option \<Rightarrow> bool" where
  \<comment> \<open>\<^verbatim>\<open>!x\<close> for a form field: absent or the empty string\<close>
  "falsy x = (case x of None \<Rightarrow> True | Some s \<Rightarrow> s = [])"

definition fieldVal :: "(string \<times> string) list \<Rightarrow> string \<Rightarrow> jsval" where
  \<comment> \<open>\<^verbatim>\<open>req.body.k\<close>\<close>
  "fieldVal body k = (case map_of body k of None \<Rightarrow> Undefined | Some s \<Rightarrow> Str s)"

definition textOf :: "string option \<Rightarrow> string" where
  "textOf x = (case x of None \<Rightarrow> [] | Some s \<Rightarrow> s)"

definition bodyObject :: "(string \<times> string) list \<Rightarrow> (string \<times> jsval) list" where
  \<comment> \<open>\<^verbatim>\<open>req.body\<close> as an object: one entry for each field name, the first one sent\<close>
  "bodyObject body = map (\<lambda>(k, s). (k, Str s)) (AList.clearjunk body)"

definition templateStr :: "jsval option \<Rightarrow> string" where
  \<comment> \<open>a String path inside a template literal: the path holds a string or \<^verbatim>\<open>null\<close>, or is absent\<close>
  "templateStr x =
     (case x of Some (Str s) \<Rightarrow> s | Some Null \<Rightarrow> ''null'' | _ \<Rightarrow> ''undefined'')"

section \<open>app.js: the image inside the record\<close>

definition app_schema :: schema where
  "app_schema =
     [(''title'', SString, True), (''image'', SBuffer, True), (''name'', SString, True),
      (''designation'', SString, True), (''dob'', SDate, True), (''address'', SString, True),
      (''contentType'', SString, True)]"

definition app_post :: "runtime \<Rightarrow> state \<Rightarrow> nat \<Rightarrow> (string \<times> string) list \<Rightarrow> upload option \<Rightarrow> response \<times> state" where
  "app_post rt st i body file =
     (case file of
        None \<Rightarrow> (respond 400 (Message ''Image file is required.''), st)
      | Some f \<Rightarrow>
          (let title = map_of body ''title''; name = map_of body ''name'';
               designation = map_of body ''designation''; dob = map_of body ''dob'';
               address = map_of body ''address''
           in if falsy title \<or> falsy name \<or> falsy designation \<or> falsy dob \<or> falsy address
              then (respond 400 (Message ''All fields are required.''), st)
              else (case Date_new rt (textOf dob) of
                      None \<Rightarrow> (respond 400 (Message ''Invalid date format.''), st)
                    | Some parsedDob \<Rightarrow>
                        (case Model_save rt app_schema st i
                                [(''image'', Buf (content f)),
                                 (''title'', Str (textOf title)),
                                 (''name'', Str (textOf name)),
                                 (''designation'', Str (textOf designation)),
                                 (''dob'', DateVal parsedDob),
                                 (''address'', Str (textOf address)),
                                 (''contentType'',
                                    Str (if mimetype f = [] then ''application/octet-stream''
                                         else mimetype f))] of
                           (Inr savedEmployee, st') \<Rightarrow> (respond 201 (Document savedEmployee), st')
                         | (Inl error, st') \<Rightarrow>
                             (respond 400 (Failure ''Error creating Employee'' error), st')))))"

definition app_get_all :: "state \<Rightarrow> jsnumber \<Rightarrow> response" where
  \<comment> \<open>\<open>limit\<close> is \<^verbatim>\<open>Number(req.query.limit)\<close>, when it is \<^verbatim>\<open>NaN\<close> or an integer\<close>
  "app_get_all st limit =
     respond 200 (Documents
       (case limit of
          NaN \<Rightarrow> docs st
        | Num n \<Rightarrow> if n \<noteq> 0 then limitDocs n (docs st) else docs st))"

definition dataUri :: "string \<Rightarrow> bytes \<Rightarrow> string" where
  "dataUri contentType img = ''data:'' @ contentType @ '';base64,'' @ base64 img"

definition app_get_one :: "state \<Rightarrow> idparam \<Rightarrow> response" where
  "app_get_one st idp =
     (case idp of
        NotObjectId s \<Rightarrow> respond 500 (Failure ''Error fetching employee'' (CastError ''_id''))
      | ObjectId i s \<Rightarrow>
          (case findById st i of
             None \<Rightarrow> respond 404 (Message ''Employee not found'')
           | Some employee \<Rightarrow>
               (case map_of (props employee) ''image'' of
                  Some (Buf img) \<Rightarrow>
                    respond 200 (Document (employee\<lparr>props :=
                      AList.update ''image''
                        (Str (dataUri (templateStr (map_of (props employee) ''contentType'')) img))
                        (props employee)\<rparr>))
                | _ \<Rightarrow> respond 500 (Failure ''Error fetching employee'' TypeError))))"

definition app_updates :: "(string \<times> string) list \<Rightarrow> upload option \<Rightarrow> (string \<times> jsval) list" where
  "app_updates body file =
     (case file of
        None \<Rightarrow> bodyObject body
      | Some f \<Rightarrow>
          AList.update ''contentType'' (Str (mimetype f))
            (AList.update ''image'' (Buf (content f)) (bodyObject body)))"

definition app_put :: "runtime \<Rightarrow> state \<Rightarrow> idparam \<Rightarrow> (string \<times> string) list \<Rightarrow> upload option \<Rightarrow> response \<times> state" where
  "app_put rt st idp body file =
     (case idp of
        NotObjectId s \<Rightarrow> (respond 500 (Failure ''Error updating Employee'' (CastError ''_id'')), st)
      | ObjectId i s \<Rightarrow>
          (case findByIdAndUpdate rt app_schema st i (app_updates body file) of
             (Inl error, st') \<Rightarrow> (respond 500 (Failure ''Error updating Employee'' error), st')
           | (Inr None, st') \<Rightarrow>
               (respond 404 (Message (''Employee with ID '' @ s @ '' not found'')), st')
           | (Inr (Some updatedEmployee), st') \<Rightarrow> (respond 200 (Document updatedEmployee), st')))"

definition app_delete :: "state \<Rightarrow> idparam \<Rightarrow> response \<times> state" where
  "app_delete st idp =
     (case idp of
        NotObjectId s \<Rightarrow> (respond 500 (Failure ''Error deleting Employee'' (CastError ''_id'')), st)
      | ObjectId i s \<Rightarrow>
          (case findByIdAndDelete st i of
             (None, st') \<Rightarrow>
               (respond 404 (Message (''Employee with ID '' @ s @ '' not found'')), st')
           | (Some deletedEmployee, st') \<Rightarrow>
               (respond 200 (Message (''Employee with ID '' @ s @ '' deleted'')), st')))"

section \<open>server.js: the image in the upload directory\<close>

definition server_schema :: schema where
  "server_schema =
     [(''title'', SString, True), (''image'', SString, False), (''name'', SString, True),
      (''designation'', SString, True), (''dob'', SDate, True), (''address'', SString, True)]"

definition server_upload :: "nat \<Rightarrow> state \<Rightarrow> upload option \<Rightarrow> (jserror + string option) \<times> state" where
  \<comment> \<open>\<^verbatim>\<open>upload.single("image")\<close>: the file filter runs before the disk storage writes;
      \<open>now\<close> is \<^verbatim>\<open>Date.now()\<close>; the result is \<^verbatim>\<open>req.file.filename\<close>\<close>
  "server_upload now st file =
     (case file of
        None \<Rightarrow> (Inr None, st)
      | Some f \<Rightarrow>
          if \<not> startsWith (mimetype f) ''image/''
          then (Inl (UploadError ''Only image files are allowed''), st)
          else (let filename = showNat now @ ''-'' @ originalname f
                in (Inr (Some filename),
                    st\<lparr>uploads := AList.update filename (content f) (uploads st)\<rparr>)))"

definition server_post :: "runtime \<Rightarrow> state \<Rightarrow> nat \<Rightarrow> nat \<Rightarrow> (string \<times> string) list \<Rightarrow> upload option \<Rightarrow> response \<times> state" where
  \<comment> \<open>an error of the upload middleware goes to Express's default error handler,
      which answers 500 for an error that carries no status\<close>
  "server_post rt st i now body file =
     (case server_upload now st file of
        (Inl err, st1) \<Rightarrow> (respond 500 (Unhandled err), st1)
      | (Inr filename, st1) \<Rightarrow>
          (let img = (case filename of Some n \<Rightarrow> Str (''/uploads/'' @ n) | None \<Rightarrow> Null)
           in case Model_save rt server_schema st1 i
                     [(''title'', fieldVal body ''title''),
                      (''image'', img),
                      (''name'', fieldVal body ''name''),
                      (''designation'', fieldVal body ''designation''),
                      (''dob'', fieldVal body ''dob''),
                      (''address'', fieldVal body ''address'')] of
                (Inr savedEmployee, st2) \<Rightarrow> (respond 201 (Document savedEmployee), st2)
              | (Inl error, st2) \<Rightarrow>
                  (respond 500 (Failure ''Error creating employee'' error), st2)))"

definition server_get_all :: "state \<Rightarrow> int option \<Rightarrow> int option \<Rightarrow> response" where
  \<comment> \<open>\<open>page\<close> and \<open>limit\<close> are the query parameters when they are integers, \<open>None\<close> when absent;
      a total that is not finite is \<^verbatim>\<open>null\<close> in the JSON answer\<close>
  "server_get_all st page limit =
     (let p = (case page of None \<Rightarrow> 1 | Some x \<Rightarrow> x);
          l = (case limit of None \<Rightarrow> 10 | Some x \<Rightarrow> x);
          skip = (p - 1) * l
      in if skip < 0
         then respond 500 (Failure ''Error fetching employees''
                (MongoServerError ''Skip value must be non-negative''))
         else respond 200 (Page
                \<lparr>totalEmployees = length (docs st),
                 totalPages = (if l = 0 then None else Some (ceilDiv (int (length (docs st))) l)),
                 currentPage = p,
                 employees = limitDocs l (drop (nat skip) (docs st))\<rparr>))"

definition server_get_one :: "state \<Rightarrow> idparam \<Rightarrow> response" where
  "server_get_one st idp =
     (case idp of
        NotObjectId s \<Rightarrow> respond 500 (Failure ''Error fetching employee'' (CastError ''_id''))
      | ObjectId i s \<Rightarrow>
          (case findById st i of
             None \<Rightarrow> respond 404 (Message ''Employee not found'')
           | Some employee \<Rightarrow> respond 200 (Document employee)))"

definition server_updatedData :: "(string \<times> string) list \<Rightarrow> string option \<Rightarrow> (string \<times> jsval) list" where
  "server_updatedData body filename =
     [(''title'', fieldVal body ''title''),
      (''name'', fieldVal body ''name''),
      (''designation'', fieldVal body ''designation''),
      (''dob'', fieldVal body ''dob''),
      (''address'', fieldVal body ''address'')]
     @ (case filename of Some n \<Rightarrow> [(''image'', Str (''/uploads/'' @ n))] | None \<Rightarrow> [])"

definition server_put :: "runtime \<Rightarrow> state \<Rightarrow> nat \<Rightarrow> idparam \<Rightarrow> (string \<times> string) list \<Rightarrow> upload option \<Rightarrow> response \<times> state" where
  "server_put rt st now idp body file =
     (case server_upload now st file of
        (Inl err, st1) \<Rightarrow> (respond 500 (Unhandled err), st1)
      | (Inr filename, st1) \<Rightarrow>
          (case idp of
             NotObjectId s \<Rightarrow>
               (respond 500 (Failure ''Error updating employee'' (CastError ''_id'')), st1)
           | ObjectId i s \<Rightarrow>
               (case findByIdAndUpdate rt server_schema st1 i (server_updatedData body filename) of
                  (Inl error, st2) \<Rightarrow> (respond 500 (Failure ''Error updating employee'' error), st2)
                | (Inr None, st2) \<Rightarrow> (respond 404 (Message ''Employee not found''), st2)
                | (Inr (Some updatedEmployee), st2) \<Rightarrow>
                    (respond 200 (Document updatedEmployee), st2))))"

definition server_delete :: "state \<Rightarrow> idparam \<Rightarrow> response \<times> state" where
  "server_delete st idp =
     (case idp of
        NotObjectId s \<Rightarrow> (respond 500 (Failure ''Error deleting employee'' (CastError ''_id'')), st)
      | ObjectId i s \<Rightarrow>
          (case findByIdAndDelete st i of
             (None, st') \<Rightarrow> (respond 404 (Message ''Employee not found''), st')
           | (Some deletedEmployee, st') \<Rightarrow>
               (respond 200 (Message ''Employee deleted successfully''), st')))"

definition resolve :: "state \<Rightarrow> string \<Rightarrow> bytes option" where
  \<comment> \<open>\<^verbatim>\<open>express.static\<close> mounted at \<^verbatim>\<open>/uploads\<close> over the upload directory\<close>
  "resolve st locator =
     (if startsWith locator ''/uploads/'' then map_of (uploads st) (drop 9 locator) else None)"

section \<open>Vocabulary of the properties\<close>

text \<open>
  The words the properties below are stated in: the unique index on the identifiers, a
  slice of a list by positions, what a response lists, which fields of a create request
  are at fault, and the record a valid create request describes.
\<close>

definition wf :: "state \<Rightarrow> bool" where
  \<comment> \<open>the unique index on \<^verbatim>\<open>_id\<close>\<close>
  "wf st = distinct (map oid (docs st))"

definition sliceOf :: "'a list \<Rightarrow> nat \<Rightarrow> nat \<Rightarrow> 'a list" where
  \<comment> \<open>the records at the positions of \<open>[a, b)\<close> that exist, in order\<close>
  "sliceOf xs a b = map (\<lambda>i. xs ! i) (filter (\<lambda>i. i < length xs) [a ..< b])"

definition pagesOf :: "response \<Rightarrow> int option" where
  "pagesOf r = (case payload r of Page l \<Rightarrow> totalPages l | _ \<Rightarrow> None)"

definition recordsOf :: "response \<Rightarrow> doc list" where
  "recordsOf r = (case payload r of Page l \<Rightarrow> employees l | Documents ds \<Rightarrow> ds | _ \<Rightarrow> [])"

definition requiredFields :: "string list" where
  "requiredFields = [''title'', ''name'', ''designation'', ''dob'', ''address'']"

definition offending :: "(string \<Rightarrow> int option) \<Rightarrow> (string \<times> string) list \<Rightarrow> string list" where
  \<comment> \<open>the required fields of a create request that are missing or empty, or, for the
      date of birth, that the parser \<open>parse\<close> does not read as a date\<close>
  "offending parse body =
     filter (\<lambda>k. falsy (map_of body k) \<or> (k = ''dob'' \<and> parse (textOf (map_of body k)) = None))
       requiredFields"

definition submitted :: "(string \<times> string) list \<Rightarrow> string \<Rightarrow> string \<Rightarrow> string \<Rightarrow> string \<Rightarrow> string \<Rightarrow> bool" where
  \<comment> \<open>the form carries these five values, none of them empty\<close>
  "submitted body title name designation dob address =
     (map_of body ''title'' = Some title \<and> title \<noteq> [] \<and>
      map_of body ''name'' = Some name \<and> name \<noteq> [] \<and>
      map_of body ''designation'' = Some designation \<and> designation \<noteq> [] \<and>
      map_of body ''dob'' = Some dob \<and> dob \<noteq> [] \<and>
      map_of body ''address'' = Some address \<and> address \<noteq> [])"

definition inlineRecord :: "nat \<Rightarrow> string \<Rightarrow> string \<Rightarrow> string \<Rightarrow> int \<Rightarrow> string \<Rightarrow> jsval \<Rightarrow> string \<Rightarrow> doc" where
  "inlineRecord i title name designation t address img ct =
     \<lparr>oid = i,
      props = [(''title'', Str title), (''image'', img), (''name'', Str name),
               (''designation'', Str designation), (''dob'', DateVal t),
               (''address'', Str address), (''contentType'', Str ct)]\<rparr>"

definition externalRecord :: "nat \<Rightarrow> string \<Rightarrow> string \<Rightarrow> string \<Rightarrow> int \<Rightarrow> string \<Rightarrow> jsval \<Rightarrow> doc" where
  "externalRecord i title name designation t address img =
     \<lparr>oid = i,
      props = [(''title'', Str title), (''image'', img), (''name'', Str name),
               (''designation'', Str designation), (''dob'', DateVal t),
               (''address'', Str address)]\<rparr>"

definition server_obj :: "(string \<times> string) list \<Rightarrow> jsval \<Rightarrow> (string \<times> jsval) list" where
  \<comment> \<open>the object \<^verbatim>\<open>server.js\<close> hands to the model on create\<close>
  "server_obj body img =
     [(''title'', fieldVal body ''title''), (''image'', img), (''name'', fieldVal body ''name''),
      (''designation'', fieldVal body ''designation''), (''dob'', fieldVal body ''dob''),
      (''address'', fieldVal body ''address'')]"

section \<open>Data of the worked examples\<close>

definition sample_runtime :: runtime where
  \<comment> \<open>for worked examples whose dates are in the date-only ISO form: a runtime that
      reads no other string as a date\<close>
  "sample_runtime = \<lparr>dateOther = (\<lambda>s. None), castDateOther = (\<lambda>s. None)\<rparr>"

definition empty_state :: state where
  "empty_state = \<lparr>docs = [], uploads = []\<rparr>"

definition sample_body :: "(string \<times> string) list" where
  "sample_body =
     [(''title'', ''Mr''), (''name'', ''Ada''), (''designation'', ''Engineer''),
      (''dob'', ''1990-01-01''), (''address'', ''1 Main St'')]"

definition sample_png :: upload where
  "sample_png = \<lparr>originalname = ''ada.png'', mimetype = ''image/png'', content = ''PNG''\<rparr>"

definition sample_txt :: upload where
  "sample_txt = \<lparr>originalname = ''notes.txt'', mimetype = ''text/plain'', content = ''hello''\<rparr>"

definition inline_doc :: doc where
  "inline_doc =
     \<lparr>oid = 7,
      props = [(''title'', Str ''Mr''), (''image'', Buf ''PNG''), (''name'', Str ''Ada''),
               (''designation'', Str ''Engineer''), (''dob'', DateVal 631152000000),
               (''address'', Str ''1 Main St''), (''contentType'', Str ''image/png'')]\<rparr>"

definition external_doc :: doc where
  "external_doc =
     \<lparr>oid = 7,
      props = [(''title'', Str ''Mr''), (''image'', Str ''/uploads/1700000000000-ada.png''),
               (''name'', Str ''Ada''), (''designation'', Str ''Engineer''),
               (''dob'', DateVal 631152000000), (''address'', Str ''1 Main St'')]\<rparr>"

definition inline_state :: state where
  "inline_state = \<lparr>docs = [inline_doc], uploads = []\<rparr>"

definition external_state :: state where
  "external_state =
     \<lparr>docs = [external_doc], uploads = [(''1700000000000-ada.png'', ''PNG'')]\<rparr>"

definition numbered :: "nat \<Rightarrow> doc" where
  "numbered n = \<lparr>oid = n, props = [(''name'', Str (showNat n))]\<rparr>"

definition five_state :: state where
  "five_state = \<lparr>docs = map numbered [1, 2, 3, 4, 5], uploads = []\<rparr>"

definition feb30_body :: "(string \<times> string) list" where
  "feb30_body =
     [(''title'', ''Mr''), (''name'', ''Ada''), (''designation'', ''Engineer''),
      (''dob'', ''2023-02-30''), (''address'', ''1 Main St'')]"

definition feb30_inline_doc :: doc where
  "feb30_inline_doc =
     \<lparr>oid = 7,
      props = [(''title'', Str ''Mr''), (''image'', Buf ''PNG''), (''name'', Str ''Ada''),
               (''designation'', Str ''Engineer''), (''dob'', DateVal 1677715200000),
               (''address'', Str ''1 Main St''), (''contentType'', Str ''image/png'')]\<rparr>"

definition month13_body :: "(string \<times> string) list" where
  "month13_body =
     [(''title'', ''Mr''), (''name'', ''Ada''), (''designation'', ''Engineer''),
      (''dob'', ''2023-13-01''), (''address'', ''1 Main St'')]"

definition no_title_body :: "(string \<times> string) list" where
  "no_title_body =
     [(''name'', ''Ada''), (''designation'', ''Engineer''),
      (''dob'', ''1990-01-01''), (''address'', ''1 Main St'')]"

definition no_address_body :: "(string \<times> string) list" where
  "no_address_body =
     [(''title'', ''Mr''), (''name'', ''Ada''), (''designation'', ''Engineer''),
      (''dob'', ''1990-01-01'')]"

definition address_body :: "(string \<times> string) list" where
  "address_body = [(''address'', ''2 Side St'')]"

section \<open>Worked example: one record created in an empty collection\<close>

lemmas eval_defs =
  Date_new_def castDate_def isoShape_def isoDate_def isDigit_def decimal_def digitVal_def
  MakeDay_def msPerDay_def sample_runtime_def empty_state_def sample_body_def sample_png_def
  Model_save_def pathFails_def pathField_def getField_def findById_def app_schema_def
  server_schema_def falsy_def textOf_def fieldVal_def respond_def List.map_filter_def
  startsWith_def digitChar_def server_upload_def inline_doc_def external_doc_def
  inline_state_def external_state_def Let_def showNat.simps

lemma app_post_sample:
  "app_post sample_runtime empty_state 7 sample_body (Some sample_png) =
     (respond 201 (Document inline_doc), inline_state)"
  by (simp add: app_post_def eval_defs)

lemma server_post_sample:
  "server_post sample_runtime empty_state 7 1700000000000 sample_body (Some sample_png) =
     (respond 201 (Document external_doc), external_state)"
  by (simp add: server_post_def eval_defs)

subsection \<open>Known values of the encoder and of the date constructor\<close>

text \<open>
  The base64 encoder on the test vectors of RFC 4648, and the Date constructor on
  date-only strings: the epoch, a leap day, a day before the epoch, a day past the end
  of its month, and months and days out of range.
\<close>

lemma base64_vectors:
  "base64 ''f'' = ''Zg==''"
  "base64 ''fo'' = ''Zm8=''"
  "base64 ''foo'' = ''Zm9v''"
  "base64 ''foobar'' = ''Zm9vYmFy''"
  by (simp_all add: b64char_def)

lemma Date_new_vectors:
  "Date_new rt ''1970-01-01'' = Some 0"
  "Date_new rt ''2000-03-01'' = Some 951868800000"
  "Date_new rt ''2024-02-29'' = Some 1709164800000"
  "Date_new rt ''1969-12-31'' = Some (- 86400000)"
  "Date_new rt ''2023-02-30'' = Date_new rt ''2023-03-02''"
  "Date_new rt ''2023-13-01'' = None"
  "Date_new rt ''2023-02-32'' = None"
  "Date_new rt ''2023-00-10'' = None"
  by (simp_all add: Date_new_def isoShape_def isoDate_def isDigit_def decimal_def digitVal_def
      MakeDay_def msPerDay_def)

section \<open>The collection keeps its identifiers unique\<close>

lemma Model_save_Inr:
  assumes "Model_save rt sch st i obj = (Inr d, st')"
  shows "oid d = i \<and> st' = st\<lparr>docs := docs st @ [d]\<rparr> \<and> findById st i = None"
  using assms by (auto simp: Model_save_def Let_def split: if_splits)

lemma Model_save_Inl:
  assumes "Model_save rt sch st i obj = (Inl e, st')"
  shows "st' = st"
  using assms by (auto simp: Model_save_def Let_def split: if_splits)

lemma findById_None_iff: "findById st i = None \<longleftrightarrow> i \<notin> oid ` set (docs st)"
  by (auto simp: findById_def find_None_iff)

lemma wf_Model_save:
  assumes "wf st" and "Model_save rt sch st i obj = (r, st')"
  shows "wf st'"
proof (cases r)
  case (Inl e)
  with assms(2) have "st' = st" using Model_save_Inl by blast
  with assms(1) show ?thesis by simp
next
  case (Inr d)
  with assms(2) have "oid d = i" "st' = st\<lparr>docs := docs st @ [d]\<rparr>" "findById st i = None"
    using Model_save_Inr by blast+
  with assms(1) show ?thesis
    by (auto simp: wf_def findById_None_iff)
qed

lemma find_append_None:
  "find P xs = None \<Longrightarrow> find P (xs @ ys) = find P ys"
  by (induction xs) (auto split: if_splits)

lemma findById_Model_save:
  assumes "Model_save rt sch st i obj = (Inr d, st')"
  shows "findById st' i = Some d"
proof -
  from assms have d: "oid d = i" "st' = st\<lparr>docs := docs st @ [d]\<rparr>" "findById st i = None"
    using Model_save_Inr by blast+
  then have "find (\<lambda>x. oid x = i) (docs st) = None"
    by (simp add: findById_def)
  with d(1,2) show ?thesis
    by (simp add: findById_def find_append_None)
qed

lemma set_removeDoc: "set (removeDoc i ds) \<subseteq> set ds"
  by (induction ds) auto

lemma distinct_removeDoc: "distinct (map oid ds) \<Longrightarrow> distinct (map oid (removeDoc i ds))"
proof (induction ds)
  case Nil
  then show ?case by simp
next
  case (Cons d ds)
  have "oid d \<notin> oid ` set (removeDoc i ds)"
    using Cons.prems set_removeDoc [of i ds] by auto
  with Cons show ?case by simp
qed

lemma find_removeDoc:
  "distinct (map oid ds) \<Longrightarrow> find (\<lambda>d. oid d = i) (removeDoc i ds) = None"
proof (induction ds)
  case Nil
  then show ?case by simp
next
  case (Cons d ds)
  show ?case
  proof (cases "oid d = i")
    case True
    with Cons.prems have "i \<notin> oid ` set ds" by auto
    then have "find (\<lambda>d. oid d = i) ds = None"
      by (auto simp: find_None_iff)
    with True show ?thesis by simp
  next
    case False
    with Cons show ?thesis by simp
  qed
qed

lemma findById_removed:
  "wf st \<Longrightarrow> findById (st\<lparr>docs := removeDoc i (docs st)\<rparr>) i = None"
  by (simp add: wf_def findById_def find_removeDoc)

lemma wf_findByIdAndDelete:
  "wf st \<Longrightarrow> wf (snd (findByIdAndDelete st i))"
  by (simp add: findByIdAndDelete_def wf_def distinct_removeDoc split: option.splits)

lemma app_post_201:
  assumes "app_post rt st i body file = (r, st')" and "status r = 201"
  shows "\<exists>obj d. Model_save rt app_schema st i obj = (Inr d, st') \<and> r = respond 201 (Document d)"
proof (cases "file")
  case None
  with assms show ?thesis by (simp add: app_post_def respond_def) auto
next
  case (Some f)
  show ?thesis
  proof (cases "falsy (map_of body ''title'') \<or> falsy (map_of body ''name'') \<or>
      falsy (map_of body ''designation'') \<or> falsy (map_of body ''dob'') \<or>
      falsy (map_of body ''address'')")
    case True
    with Some assms show ?thesis by (simp add: app_post_def respond_def Let_def) auto
  next
    case False
    note nf = this
    show ?thesis
    proof (cases "Date_new rt (textOf (map_of body ''dob''))")
      case None
      with Some nf assms show ?thesis by (simp add: app_post_def respond_def Let_def) auto
    next
      case (Some t)
      with \<open>file = Some f\<close> nf assms show ?thesis
        by (simp add: app_post_def respond_def Let_def split: prod.splits sum.splits) auto
    qed
  qed
qed

lemma server_post_201:
  assumes "server_post rt st i now body file = (r, st')" and "status r = 201"
  shows "\<exists>obj d st1. Model_save rt server_schema st1 i obj = (Inr d, st') \<and> docs st1 = docs st
            \<and> r = respond 201 (Document d)"
proof (cases "server_upload now st file")
  case (Pair u st1)
  have d1: "docs st1 = docs st"
    using Pair by (auto simp: server_upload_def Let_def split: option.splits if_splits)
  show ?thesis
  proof (cases u)
    case (Inl e)
    with Pair assms show ?thesis by (simp add: server_post_def respond_def) auto
  next
    case (Inr fn)
    with Pair assms d1 show ?thesis
      by (simp add: server_post_def respond_def Let_def split: prod.splits sum.splits) auto
  qed
qed

lemma app_post_created:
  assumes "app_post rt st i body file = (r, st')" and "status r = 201"
  shows "\<exists>d. r = respond 201 (Document d) \<and> oid d = i \<and> findById st' i = Some d
             \<and> docs st' = docs st @ [d]"
proof -
  from assms obtain obj d where
    s: "Model_save rt app_schema st i obj = (Inr d, st')" and r: "r = respond 201 (Document d)"
    using app_post_201 by blast
  from s have "oid d = i" "st' = st\<lparr>docs := docs st @ [d]\<rparr>"
    using Model_save_Inr by blast+
  with r findById_Model_save [OF s] show ?thesis by simp
qed

lemma server_post_created:
  assumes "server_post rt st i now body file = (r, st')" and "status r = 201"
  shows "\<exists>d. r = respond 201 (Document d) \<and> oid d = i \<and> findById st' i = Some d
             \<and> docs st' = docs st @ [d]"
proof -
  from assms obtain obj d st1 where
    s: "Model_save rt server_schema st1 i obj = (Inr d, st')" and d1: "docs st1 = docs st"
    and r: "r = respond 201 (Document d)"
    using server_post_201 by blast
  from s have "oid d = i" "st' = st1\<lparr>docs := docs st1 @ [d]\<rparr>"
    using Model_save_Inr by blast+
  with r d1 findById_Model_save [OF s] show ?thesis by simp
qed

section \<open>Delete\<close>

text \<open>
  C7. A record that is in the collection (every created record is, by
  \<open>app_post_created\<close> and \<open>server_post_created\<close>), the identifiers being unique, is
  deleted with status 200 by either entry point; in the state after the delete,
  fetching the same identifier answers 404 "not found", and deleting it a second time
  answers 404 as well and changes nothing.
\<close>

theorem delete_then_not_found:
  assumes "wf st" and "findById st i = Some d"
  shows "app_delete st (ObjectId i s) =
           (respond 200 (Message (''Employee with ID '' @ s @ '' deleted'')),
            st\<lparr>docs := removeDoc i (docs st)\<rparr>)
       \<and> server_delete st (ObjectId i s) =
           (respond 200 (Message ''Employee deleted successfully''),
            st\<lparr>docs := removeDoc i (docs st)\<rparr>)
       \<and> app_get_one (st\<lparr>docs := removeDoc i (docs st)\<rparr>) (ObjectId i s) =
           respond 404 (Message ''Employee not found'')
       \<and> server_get_one (st\<lparr>docs := removeDoc i (docs st)\<rparr>) (ObjectId i s) =
           respond 404 (Message ''Employee not found'')
       \<and> app_delete (st\<lparr>docs := removeDoc i (docs st)\<rparr>) (ObjectId i s) =
           (respond 404 (Message (''Employee with ID '' @ s @ '' not found'')),
            st\<lparr>docs := removeDoc i (docs st)\<rparr>)
       \<and> server_delete (st\<lparr>docs := removeDoc i (docs st)\<rparr>) (ObjectId i s) =
           (respond 404 (Message ''Employee not found''),
            st\<lparr>docs := removeDoc i (docs st)\<rparr>)"
proof -
  have gone: "findById (st\<lparr>docs := removeDoc i (docs st)\<rparr>) i = None"
    using assms(1) by (rule findById_removed)
  show ?thesis
    using assms(2) gone
    by (simp add: app_delete_def server_delete_def app_get_one_def server_get_one_def
        findByIdAndDelete_def)
qed

theorem delete_then_not_found_witness:
  "wf inline_state \<and> findById inline_state 7 = Some inline_doc
   \<and> app_delete inline_state (ObjectId 7 ''7'') =
       (respond 200 (Message ''Employee with ID 7 deleted''), empty_state)
   \<and> app_get_one empty_state (ObjectId 7 ''7'') = respond 404 (Message ''Employee not found'')
   \<and> app_delete empty_state (ObjectId 7 ''7'') =
       (respond 404 (Message ''Employee with ID 7 not found''), empty_state)
   \<and> server_delete empty_state (ObjectId 7 ''7'') =
       (respond 404 (Message ''Employee not found''), empty_state)"
proof -
  have h1: "wf inline_state"
    by (simp add: wf_def inline_state_def)
  have h2: "findById inline_state 7 = Some inline_doc"
    by (simp add: findById_def inline_state_def inline_doc_def)
  have e: "inline_state\<lparr>docs := removeDoc 7 (docs inline_state)\<rparr> = empty_state"
    by (simp add: inline_state_def inline_doc_def empty_state_def)
  show ?thesis
    using h1 h2 delete_then_not_found [OF h1 h2, of "''7''"] by (simp add: e)
qed

section \<open>Listing by page (server.js)\<close>

lemma ceilDiv_ceiling: "ceilDiv a b = \<lceil>real_of_int a / real_of_int b\<rceil>"
proof -
  have "\<lfloor>real_of_int (- a) / real_of_int b\<rfloor> = (- a) div b"
    by (rule floor_divide_of_int_eq)
  then show ?thesis
    by (simp add: ceilDiv_def ceiling_def)
qed

lemma filter_upt_less: "filter (\<lambda>i. i < n) [a ..< b] = [a ..< min b n]"
  by (induction b) auto

lemma take_drop_sliceOf: "take l (drop a xs) = sliceOf xs a (a + l)"
proof -
  have "take l (drop a xs) = map (\<lambda>i. xs ! i) [a ..< min (a + l) (length xs)]"
  proof (rule nth_equalityI)
    show "length (take l (drop a xs)) = length (map (\<lambda>i. xs ! i) [a ..< min (a + l) (length xs)])"
      by auto
  next
    fix i
    assume "i < length (take l (drop a xs))"
    then have i: "i < l" "a + i < length xs" by auto
    then have "a + i < min (a + l) (length xs)" by simp
    with i show "take l (drop a xs) ! i = map (\<lambda>i. xs ! i) [a ..< min (a + l) (length xs)] ! i"
      by (simp del: upt_Suc)
  qed
  then show ?thesis
    by (simp add: sliceOf_def filter_upt_less)
qed

lemma server_get_all_page:
  assumes "1 \<le> page" and "1 \<le> limit"
  shows "server_get_all st (Some page) (Some limit) =
           respond 200 (Page
             \<lparr>totalEmployees = length (docs st),
              totalPages = Some (ceilDiv (int (length (docs st))) limit),
              currentPage = page,
              employees = take (nat limit) (drop (nat ((page - 1) * limit)) (docs st))\<rparr>)"
proof -
  from assms have "\<not> (page - 1) * limit < 0"
    by (simp add: not_less)
  moreover from assms have "limit \<noteq> 0" "nat \<bar>limit\<bar> = nat limit" by simp_all
  ultimately show ?thesis
    by (simp add: server_get_all_def limitDocs_def Let_def)
qed

lemma ceilDiv_mult_ge:
  assumes "1 \<le> (l::int)"
  shows "n \<le> ceilDiv n l * l"
proof -
  have "0 \<le> (- n) mod l"
    using assms by simp
  moreover have "(- n) div l * l + (- n) mod l = - n"
    by simp
  ultimately have "(- n) div l * l \<le> - n"
    by linarith
  then show ?thesis by (simp add: ceilDiv_def)
qed

lemma ceilDiv_nonneg:
  assumes "1 \<le> (l::int)" and "0 \<le> n"
  shows "0 \<le> ceilDiv n l"
proof -
  have "(- n) div l \<le> 0"
    using assms by (intro div_nonpos_pos_le0) simp_all
  then show ?thesis by (simp add: ceilDiv_def)
qed

lemma concat_pages:
  "concat (map (\<lambda>p. take l (drop ((p - 1) * l) xs)) [1 ..< Suc k]) = take (k * l) xs"
proof (induction k)
  case 0
  then show ?case by simp
next
  case (Suc k)
  have "take (k * l) xs @ take l (drop (k * l) xs) = take (k * l + l) xs"
    by (simp add: take_add)
  with Suc show ?case
    by (simp add: add.commute)
qed

lemma server_page_records:
  assumes "1 \<le> p" and "1 \<le> limit"
  shows "recordsOf (server_get_all st (Some (int p)) (Some limit)) =
           take (nat limit) (drop ((p - 1) * nat limit) (docs st))"
proof -
  from assms have "nat ((int p - 1) * limit) = (p - 1) * nat limit"
    by (simp add: nat_mult_distrib of_nat_diff)
  with assms show ?thesis
    by (simp add: server_get_all_page recordsOf_def respond_def)
qed


lemma pages_reach_end:
  assumes "1 \<le> limit"
  shows "length xs \<le> nat (ceilDiv (int (length xs)) limit) * nat limit"
proof -
  let ?k = "ceilDiv (int (length xs)) limit"
  have k: "0 \<le> ?k"
    using assms by (intro ceilDiv_nonneg) simp_all
  have "int (length xs) \<le> ?k * limit"
    using assms by (rule ceilDiv_mult_ge)
  also have "?k * limit = int (nat ?k * nat limit)"
    using k assms by simp
  finally have "int (length xs) \<le> int (nat ?k * nat limit)" .
  then show ?thesis by (simp only: of_nat_le_iff)
qed

text \<open>
  C3. For \<open>page \<ge> 1\<close> and \<open>limit \<ge> 1\<close> the listing of \<^verbatim>\<open>server.js\<close> answers 200 with
  the records at positions \<open>[(page - 1) * limit, page * limit)\<close> of the collection, the
  full count, and \<open>totalPages\<close> the ceiling of count over limit. A page past
  \<open>totalPages\<close> answers 200 with no records.
\<close>

theorem page_mode_listing:
  assumes "1 \<le> page" and "1 \<le> limit"
  shows "server_get_all st (Some page) (Some limit) =
           respond 200 (Page
             \<lparr>totalEmployees = length (docs st),
              totalPages = Some \<lceil>real (length (docs st)) / real_of_int limit\<rceil>,
              currentPage = page,
              employees = sliceOf (docs st) (nat ((page - 1) * limit)) (nat (page * limit))\<rparr>)
       \<and> (\<lceil>real (length (docs st)) / real_of_int limit\<rceil> < page \<longrightarrow>
            recordsOf (server_get_all st (Some page) (Some limit)) = []
            \<and> status (server_get_all st (Some page) (Some limit)) = 200)"
proof -
  let ?a = "nat ((page - 1) * limit)"
  have "page * limit = (page - 1) * limit + limit"
    by (simp add: algebra_simps)
  moreover have "0 \<le> (page - 1) * limit"
    using assms by simp
  ultimately have b: "nat (page * limit) = ?a + nat limit"
    using assms by (simp add: nat_add_distrib)
  have sl: "take (nat limit) (drop ?a (docs st)) = sliceOf (docs st) ?a (nat (page * limit))"
    by (simp add: b take_drop_sliceOf)
  have c: "ceilDiv (int (length (docs st))) limit = \<lceil>real (length (docs st)) / real_of_int limit\<rceil>"
    by (simp add: ceilDiv_ceiling)
  have eq: "server_get_all st (Some page) (Some limit) =
           respond 200 (Page
             \<lparr>totalEmployees = length (docs st),
              totalPages = Some \<lceil>real (length (docs st)) / real_of_int limit\<rceil>,
              currentPage = page,
              employees = sliceOf (docs st) ?a (nat (page * limit))\<rparr>)"
    using server_get_all_page [OF assms, of st] by (simp only: sl c)
  have beyond: "recordsOf (server_get_all st (Some page) (Some limit)) = []"
    if "\<lceil>real (length (docs st)) / real_of_int limit\<rceil> < page"
  proof -
    from that c have "ceilDiv (int (length (docs st))) limit \<le> page - 1" by simp
    then have "ceilDiv (int (length (docs st))) limit * limit \<le> (page - 1) * limit"
      using assms by (intro mult_right_mono) simp_all
    moreover have "int (length (docs st)) \<le> ceilDiv (int (length (docs st))) limit * limit"
      using assms(2) by (rule ceilDiv_mult_ge)
    ultimately have "length (docs st) \<le> ?a" by simp
    then show ?thesis
      using server_get_all_page [OF assms, of st] by (simp add: recordsOf_def respond_def)
  qed
  have "status (server_get_all st (Some page) (Some limit)) = 200"
    using eq by (simp add: respond_def)
  with eq beyond show ?thesis by blast
qed

text \<open>
  C8. For \<open>limit \<ge> 1\<close> every page reports \<open>totalPages\<close> as the ceiling of count over
  limit, and the records of pages 1 to \<open>totalPages\<close>, one after the other, are the whole
  collection in order: nothing is left out, and no identifier comes twice when the
  collection has none twice.
\<close>

theorem pages_cover_collection:
  assumes "1 \<le> limit"
  shows "(\<forall>p. 1 \<le> p \<longrightarrow>
            pagesOf (server_get_all st (Some p) (Some limit)) =
              Some \<lceil>real (length (docs st)) / real_of_int limit\<rceil>)
       \<and> concat (map (\<lambda>p. recordsOf (server_get_all st (Some (int p)) (Some limit)))
            [1 ..< Suc (nat \<lceil>real (length (docs st)) / real_of_int limit\<rceil>)]) = docs st
       \<and> (wf st \<longrightarrow> distinct (map oid
            (concat (map (\<lambda>p. recordsOf (server_get_all st (Some (int p)) (Some limit)))
              [1 ..< Suc (nat \<lceil>real (length (docs st)) / real_of_int limit\<rceil>)]))))"
proof -
  let ?k = "nat \<lceil>real (length (docs st)) / real_of_int limit\<rceil>"
  have c: "ceilDiv (int (length (docs st))) limit = \<lceil>real (length (docs st)) / real_of_int limit\<rceil>"
    by (simp add: ceilDiv_ceiling)
  have tp: "pagesOf (server_get_all st (Some p) (Some limit)) =
              Some \<lceil>real (length (docs st)) / real_of_int limit\<rceil>" if "1 \<le> p" for p
    using server_get_all_page [OF that assms, of st] by (simp add: pagesOf_def respond_def c)
  have "map (\<lambda>p. recordsOf (server_get_all st (Some (int p)) (Some limit))) [1 ..< Suc ?k] =
        map (\<lambda>p. take (nat limit) (drop ((p - 1) * nat limit) (docs st))) [1 ..< Suc ?k]"
    by (rule map_cong) (simp_all add: server_page_records assms del: upt_Suc)
  then have "concat (map (\<lambda>p. recordsOf (server_get_all st (Some (int p)) (Some limit)))
               [1 ..< Suc ?k]) = take (?k * nat limit) (docs st)"
    by (simp only: concat_pages)
  moreover have "length (docs st) \<le> ?k * nat limit"
    using pages_reach_end [OF assms, of "docs st"] by (simp only: c)
  ultimately have all: "concat (map (\<lambda>p. recordsOf (server_get_all st (Some (int p)) (Some limit)))
               [1 ..< Suc ?k]) = docs st"
    by simp
  from tp all show ?thesis
    by (simp only: wf_def) blast
qed


lemma five_ceiling: "\<lceil>real (length (docs five_state)) / real_of_int 2\<rceil> = 3"
  by (simp add: five_state_def)

theorem page_mode_listing_witness:
  "server_get_all five_state (Some 2) (Some 2) =
     respond 200 (Page \<lparr>totalEmployees = 5, totalPages = Some 3, currentPage = 2,
                        employees = [numbered 3, numbered 4]\<rparr>)
   \<and> recordsOf (server_get_all five_state (Some 4) (Some 2)) = []
   \<and> status (server_get_all five_state (Some 4) (Some 2)) = 200"
proof -
  have s: "sliceOf (docs five_state) 2 4 = [numbered 3, numbered 4]"
    by (simp add: sliceOf_def five_state_def upt_rec)
  have e: "sliceOf (docs five_state) 6 8 = []"
    by (simp add: sliceOf_def five_state_def upt_rec)
  have n: "length (docs five_state) = 5"
    by (simp add: five_state_def)
  show ?thesis
    using page_mode_listing [of 2 2 five_state] page_mode_listing [of 4 2 five_state]
    by (simp add: five_ceiling n s e recordsOf_def respond_def)
qed

theorem pages_cover_collection_witness:
  "pagesOf (server_get_all five_state (Some 1) (Some 2)) = Some 3
   \<and> concat (map (\<lambda>p. recordsOf (server_get_all five_state (Some (int p)) (Some 2))) [1, 2, 3])
       = map numbered [1, 2, 3, 4, 5]
   \<and> wf five_state"
proof -
  have w: "wf five_state"
    by (simp add: wf_def five_state_def numbered_def)
  have u: "[1 ..< Suc (nat 3)] = [1, 2, 3]"
    by (simp add: upt_rec)
  have d: "docs five_state = map numbered [1, 2, 3, 4, 5]"
    by (simp add: five_state_def)
  show ?thesis
    using pages_cover_collection [of 2 five_state] w
    by (simp only: five_ceiling u) (simp add: d)
qed

section \<open>Listing with a limit (app.js)\<close>

text \<open>
  C10. In \<^verbatim>\<open>app.js\<close> a limit that coerces to \<^verbatim>\<open>NaN\<close> or to 0 is falsy, and the listing
  answers the whole collection; a positive limit \<open>n\<close> answers the first \<open>n\<close> records,
  so never more than \<open>n\<close>.
\<close>

theorem falsy_limit_lists_all:
  "app_get_all st NaN = respond 200 (Documents (docs st))
   \<and> app_get_all st (Num 0) = respond 200 (Documents (docs st))
   \<and> (0 < n \<longrightarrow> app_get_all st (Num n) = respond 200 (Documents (take (nat n) (docs st)))
                  \<and> int (length (recordsOf (app_get_all st (Num n)))) \<le> n)"
  by (auto simp: app_get_all_def limitDocs_def recordsOf_def respond_def)

theorem falsy_limit_lists_all_witness:
  "app_get_all five_state (Num 0) = respond 200 (Documents (map numbered [1, 2, 3, 4, 5]))
   \<and> app_get_all five_state (Num 2) = respond 200 (Documents [numbered 1, numbered 2])"
  using falsy_limit_lists_all [of five_state 2] by (simp add: five_state_def)

section \<open>Uploads that are not images (server.js)\<close>

lemma server_upload_rejects:
  assumes "\<not> startsWith (mimetype f) ''image/''"
  shows "server_upload now st (Some f) = (Inl (UploadError ''Only image files are allowed''), st)"
  using assms by (simp add: server_upload_def)

lemma server_upload_docs:
  assumes "server_upload now st upl = (u, st1)"
  shows "docs st1 = docs st"
  using assms by (auto simp: server_upload_def Let_def split: option.splits if_splits)

text \<open>
  C5, as stated, fails on one point: the rejection is not answered as a client error.
  The file filter hands its error to Express, no error handler is installed, and the
  default one answers 500 for an error without a status.
\<close>

theorem non_image_upload_is_client_error_counterexample:
  "status (fst (server_post sample_runtime empty_state 7 1700000000000 sample_body
      (Some sample_txt))) = 500
   \<and> \<not> (400 \<le> status (fst (server_post sample_runtime empty_state 7 1700000000000 sample_body
      (Some sample_txt)))
      \<and> status (fst (server_post sample_runtime empty_state 7 1700000000000 sample_body
      (Some sample_txt))) < 500)"
  by (simp add: server_post_def server_upload_def startsWith_def sample_txt_def respond_def)

text \<open>
  C5, amended. In \<^verbatim>\<open>server.js\<close> an upload whose declared type does not start with
  \<^verbatim>\<open>image/\<close> is refused with the error "Only image files are allowed", answered with
  status 500; the route handler does not run, so nothing is written to the upload
  directory and no record is created or changed.
\<close>

theorem non_image_upload_rejected:
  assumes "\<not> startsWith (mimetype f) ''image/''"
  shows "server_post rt st i now body (Some f) =
           (respond 500 (Unhandled (UploadError ''Only image files are allowed'')), st)
       \<and> server_put rt st now idp body (Some f) =
           (respond 500 (Unhandled (UploadError ''Only image files are allowed'')), st)"
  using server_upload_rejects [OF assms]
  by (simp add: server_post_def server_put_def)

theorem non_image_upload_rejected_witness:
  "\<not> startsWith (mimetype sample_txt) ''image/''
   \<and> server_post sample_runtime empty_state 7 1700000000000 sample_body (Some sample_txt) =
       (respond 500 (Unhandled (UploadError ''Only image files are allowed'')), empty_state)
   \<and> server_put sample_runtime external_state 1700000000000 (ObjectId 7 ''7'') sample_body
         (Some sample_txt) =
       (respond 500 (Unhandled (UploadError ''Only image files are allowed'')), external_state)"
proof -
  have h: "\<not> startsWith (mimetype sample_txt) ''image/''"
    by (simp add: startsWith_def sample_txt_def)
  show ?thesis
    using h non_image_upload_rejected [OF h, of sample_runtime empty_state 7 1700000000000 sample_body]
      non_image_upload_rejected [OF h, of sample_runtime external_state 7 1700000000000 sample_body
        "ObjectId 7 ''7''"]
    by simp
qed

section \<open>Create requests that are refused\<close>

lemma app_post_no_file:
  "app_post rt st i body None = (respond 400 (Message ''Image file is required.''), st)"
  by (simp add: app_post_def)

lemma some_falsy_iff:
  "(\<exists>k \<in> set requiredFields. falsy (map_of body k)) \<longleftrightarrow>
     falsy (map_of body ''title'') \<or> falsy (map_of body ''name'') \<or>
     falsy (map_of body ''designation'') \<or> falsy (map_of body ''dob'') \<or>
     falsy (map_of body ''address'')"
  by (simp add: requiredFields_def)

lemma app_post_missing:
  assumes "\<exists>k \<in> set requiredFields. falsy (map_of body k)"
  shows "app_post rt st i body (Some f) = (respond 400 (Message ''All fields are required.''), st)"
  using assms unfolding some_falsy_iff by (simp add: app_post_def Let_def)

lemma app_post_bad_date:
  assumes "\<not> (\<exists>k \<in> set requiredFields. falsy (map_of body k))"
    and "Date_new rt (textOf (map_of body ''dob'')) = None"
  shows "app_post rt st i body (Some f) = (respond 400 (Message ''Invalid date format.''), st)"
  using assms unfolding some_falsy_iff by (simp add: app_post_def Let_def)

lemma offending_app:
  "offending parse body \<noteq> [] \<longleftrightarrow>
     (\<exists>k \<in> set requiredFields. falsy (map_of body k)) \<or> parse (textOf (map_of body ''dob'')) = None"
  by (auto simp: offending_def requiredFields_def filter_empty_conv)

lemma pathFails_text:
  assumes "getField obj k = fieldVal body k"
  shows "pathFails rt obj (k, SString, True) = falsy (map_of body k)"
  using assms by (cases "map_of body k") (simp_all add: pathFails_def fieldVal_def falsy_def)

lemma pathFails_dob:
  assumes "getField obj k = fieldVal body k"
  shows "pathFails rt obj (k, SDate, True) =
           (falsy (map_of body k) \<or> castDate rt (textOf (map_of body k)) = None)"
proof (cases "map_of body k")
  case None
  with assms show ?thesis by (simp add: pathFails_def fieldVal_def falsy_def)
next
  case (Some s)
  with assms show ?thesis
    by (cases "castDate rt s") (simp_all add: pathFails_def fieldVal_def falsy_def textOf_def)
qed

lemma pathFails_image:
  assumes "getField obj k = v" and "v = Null \<or> (\<exists>s. v = Str s)"
  shows "\<not> pathFails rt obj (k, SString, False)"
  using assms by (auto simp: pathFails_def)

lemma server_errs:
  assumes "img = Null \<or> (\<exists>s. img = Str s)"
  shows "map fst (filter (pathFails rt (server_obj body img)) server_schema) =
           offending (castDate rt) body"
proof -
  let ?obj = "server_obj body img"
  have t: "pathFails rt ?obj (''title'', SString, True) = falsy (map_of body ''title'')"
    by (rule pathFails_text) (simp add: getField_def server_obj_def)
  have n: "pathFails rt ?obj (''name'', SString, True) = falsy (map_of body ''name'')"
    by (rule pathFails_text) (simp add: getField_def server_obj_def)
  have g: "pathFails rt ?obj (''designation'', SString, True) = falsy (map_of body ''designation'')"
    by (rule pathFails_text) (simp add: getField_def server_obj_def)
  have a: "pathFails rt ?obj (''address'', SString, True) = falsy (map_of body ''address'')"
    by (rule pathFails_text) (simp add: getField_def server_obj_def)
  have b: "pathFails rt ?obj (''dob'', SDate, True) =
      (falsy (map_of body ''dob'') \<or> castDate rt (textOf (map_of body ''dob'')) = None)"
    by (rule pathFails_dob) (simp add: getField_def server_obj_def)
  have m: "\<not> pathFails rt ?obj (''image'', SString, False)"
    by (rule pathFails_image [where v = img]) (simp_all add: getField_def server_obj_def assms)
  show ?thesis
    by (simp add: server_schema_def offending_def requiredFields_def t n g a b m)
qed

lemma server_post_invalid:
  assumes "offending (castDate rt) body \<noteq> []"
    and "server_upload now st upl = (Inr fn, st1)"
  shows "server_post rt st i now body upl =
           (respond 500 (Failure ''Error creating employee''
              (ValidationError (set (offending (castDate rt) body)))), st1)"
proof -
  let ?img = "case fn of Some n \<Rightarrow> Str (''/uploads/'' @ n) | None \<Rightarrow> Null"
  have "?img = Null \<or> (\<exists>s. ?img = Str s)"
    by (cases fn) simp_all
  then have e: "map fst (filter (pathFails rt (server_obj body ?img)) server_schema) =
           offending (castDate rt) body"
    by (rule server_errs)
  have "Model_save rt server_schema st1 i (server_obj body ?img) =
          (Inl (ValidationError (set (offending (castDate rt) body))), st1)"
    using assms(1) by (simp add: Model_save_def e)
  then show ?thesis
    using assms(2) by (simp add: server_post_def server_obj_def)
qed

lemma iso_out_of_range:
  assumes "isoShape s"
    and "\<not> (1 \<le> decimal (take 2 (drop 5 s)) \<and> decimal (take 2 (drop 5 s)) \<le> 12
           \<and> 1 \<le> decimal (drop 8 s) \<and> decimal (drop 8 s) \<le> 31)"
  shows "Date_new rt s = None \<and> castDate rt s = None"
  using assms by (auto simp: Date_new_def castDate_def isoDate_def Let_def)


lemma app_post_invalid:
  assumes "offending (Date_new rt) body \<noteq> []"
  shows "app_post rt st i body upl =
           (respond 400 (Message
              (if upl = None then ''Image file is required.''
               else if (\<exists>k \<in> set requiredFields. falsy (map_of body k))
                    then ''All fields are required.''
               else ''Invalid date format.'')), st)"
proof (cases upl)
  case None
  then show ?thesis by (simp add: app_post_no_file)
next
  case (Some f)
  show ?thesis
  proof (cases "\<exists>k \<in> set requiredFields. falsy (map_of body k)")
    case True
    with Some show ?thesis by (simp add: app_post_missing)
  next
    case False
    with assms have "Date_new rt (textOf (map_of body ''dob'')) = None"
      by (simp add: offending_app)
    with False Some show ?thesis by (simp add: app_post_bad_date)
  qed
qed

lemma dob_offending:
  assumes "parse (textOf (map_of body ''dob'')) = None"
  shows "''dob'' \<in> set (offending parse body)"
  using assms by (simp add: offending_def requiredFields_def)

text \<open>
  C2, as stated, fails for a day that exists in some month but not in the month given:
  \<^verbatim>\<open>2023-02-30\<close> is read as 2 March 2023 and the record is created, by either entry point.
\<close>

theorem feb30_accepted_counterexample:
  "app_post sample_runtime empty_state 7 feb30_body (Some sample_png) =
     (respond 201 (Document feb30_inline_doc), \<lparr>docs = [feb30_inline_doc], uploads = []\<rparr>)
   \<and> Date_new sample_runtime ''2023-03-02'' = Some 1677715200000
   \<and> status (fst (server_post sample_runtime empty_state 7 1700000000000 feb30_body None)) = 201"
  by (simp add: app_post_def server_post_def eval_defs feb30_body_def feb30_inline_doc_def)

text \<open>
  C2, amended. A create request whose date of birth the runtime does not read as a date
  is refused and no record is stored: \<^verbatim>\<open>app.js\<close> answers 400 and leaves the state as it
  was; \<^verbatim>\<open>server.js\<close> answers 500, with the model's ValidationError naming \<^verbatim>\<open>dob\<close> when
  the upload was accepted, and leaves the collection as it was. A string of the form
  \<^verbatim>\<open>YYYY-MM-DD\<close> whose month is not 1 to 12 or whose day is not 1 to 31 is not read as
  a date.
\<close>

theorem unparseable_dob_rejected:
  "(Date_new rt (textOf (map_of body ''dob'')) = None \<longrightarrow>
      (\<exists>m. app_post rt st i body upl = (respond 400 (Message m), st)))
   \<and> (castDate rt (textOf (map_of body ''dob'')) = None \<longrightarrow>
        status (fst (server_post rt st i now body upl)) = 500
        \<and> docs (snd (server_post rt st i now body upl)) = docs st
        \<and> (\<forall>fn st1. server_upload now st upl = (Inr fn, st1) \<longrightarrow>
             (\<exists>errs. ''dob'' \<in> errs \<and> server_post rt st i now body upl =
                (respond 500 (Failure ''Error creating employee'' (ValidationError errs)), st1))))
   \<and> (isoShape s \<and> \<not> (1 \<le> decimal (take 2 (drop 5 s)) \<and> decimal (take 2 (drop 5 s)) \<le> 12
           \<and> 1 \<le> decimal (drop 8 s) \<and> decimal (drop 8 s) \<le> 31) \<longrightarrow>
        Date_new rt s = None \<and> castDate rt s = None)"
proof -
  have a: "\<exists>m. app_post rt st i body upl = (respond 400 (Message m), st)"
    if "Date_new rt (textOf (map_of body ''dob'')) = None"
  proof -
    from that have "offending (Date_new rt) body \<noteq> []"
      using dob_offending [of "Date_new rt" body] by auto
    then show ?thesis
      using app_post_invalid by blast
  qed
  have b: "status (fst (server_post rt st i now body upl)) = 500
        \<and> docs (snd (server_post rt st i now body upl)) = docs st
        \<and> (\<forall>fn st1. server_upload now st upl = (Inr fn, st1) \<longrightarrow>
             (\<exists>errs. ''dob'' \<in> errs \<and> server_post rt st i now body upl =
                (respond 500 (Failure ''Error creating employee'' (ValidationError errs)), st1)))"
    if c: "castDate rt (textOf (map_of body ''dob'')) = None"
  proof -
    have d: "''dob'' \<in> set (offending (castDate rt) body)"
      using c by (rule dob_offending)
    then have ne: "offending (castDate rt) body \<noteq> []" by auto
    obtain u st1 where up: "server_upload now st upl = (u, st1)"
      by (cases "server_upload now st upl")
    have ds: "docs st1 = docs st"
      using up by (rule server_upload_docs)
    show ?thesis
    proof (cases u)
      case (Inl e)
      with up ds show ?thesis
        by (simp add: server_post_def respond_def)
    next
      case (Inr fn)
      with up have "server_post rt st i now body upl =
           (respond 500 (Failure ''Error creating employee''
              (ValidationError (set (offending (castDate rt) body)))), st1)"
        using server_post_invalid [OF ne] by simp
      with up Inr ds d show ?thesis
        by (auto simp: respond_def)
    qed
  qed
  from a b iso_out_of_range [of s rt] show ?thesis by blast
qed

theorem unparseable_dob_rejected_witness:
  "app_post sample_runtime empty_state 7 month13_body (Some sample_png) =
     (respond 400 (Message ''Invalid date format.''), empty_state)
   \<and> server_post sample_runtime empty_state 7 1700000000000 month13_body None =
     (respond 500 (Failure ''Error creating employee'' (ValidationError {''dob''})), empty_state)
   \<and> Date_new sample_runtime ''2023-02-32'' = None"
proof -
  have d: "textOf (map_of month13_body ''dob'') = ''2023-13-01''"
    by (simp add: month13_body_def textOf_def)
  have n: "Date_new sample_runtime ''2023-13-01'' = None" "castDate sample_runtime ''2023-13-01'' = None"
    by (simp_all add: eval_defs)
  have a: "app_post sample_runtime empty_state 7 month13_body (Some sample_png) =
     (respond 400 (Message ''Invalid date format.''), empty_state)"
    by (simp add: app_post_def eval_defs month13_body_def)
  have u: "server_upload 1700000000000 empty_state None = (Inr None, empty_state)"
    by (simp add: server_upload_def)
  have sh: "isoShape ''2023-02-32''"
    by (simp add: isoShape_def isDigit_def)
  have rg: "\<not> (1 \<le> decimal (take 2 (drop 5 ''2023-02-32'')) \<and> decimal (take 2 (drop 5 ''2023-02-32'')) \<le> 12
           \<and> 1 \<le> decimal (drop 8 ''2023-02-32'') \<and> decimal (drop 8 ''2023-02-32'') \<le> 31)"
    by (simp add: decimal_def digitVal_def)
  have o: "offending (castDate sample_runtime) month13_body = [''dob'']"
    by (simp add: offending_def requiredFields_def month13_body_def falsy_def textOf_def n)
  have s: "server_post sample_runtime empty_state 7 1700000000000 month13_body None =
     (respond 500 (Failure ''Error creating employee'' (ValidationError {''dob''})), empty_state)"
    using server_post_invalid [of sample_runtime month13_body 1700000000000 empty_state None None empty_state 7]
    by (simp add: o u)
  show ?thesis
    using unparseable_dob_rejected [of sample_runtime month13_body empty_state 7 "Some sample_png"
        1700000000000 "''2023-02-32''"] a s sh rg
    by (simp add: d n)
qed

text \<open>
  C6, as stated, fails on two points. \<^verbatim>\<open>app.js\<close> answers a missing title and a missing
  address with the same message, which names no field. In \<^verbatim>\<open>server.js\<close> the upload
  middleware has written the image to the upload directory before the model refuses
  the record.
\<close>

theorem missing_field_not_named_counterexample:
  "app_post sample_runtime empty_state 7 no_title_body (Some sample_png) =
     (respond 400 (Message ''All fields are required.''), empty_state)
   \<and> app_post sample_runtime empty_state 7 no_address_body (Some sample_png) =
     (respond 400 (Message ''All fields are required.''), empty_state)
   \<and> server_post sample_runtime empty_state 7 1700000000000 no_title_body (Some sample_png) =
     (respond 500 (Failure ''Error creating employee'' (ValidationError {''title''})),
      \<lparr>docs = [], uploads = [(''1700000000000-ada.png'', ''PNG'')]\<rparr>)"
  by (simp add: app_post_def server_post_def eval_defs no_title_body_def no_address_body_def)

text \<open>
  C6, amended. A create request in which a required text field is missing or empty, or
  whose date of birth is missing, empty or not read as a date, is refused and no record
  is stored. \<^verbatim>\<open>app.js\<close> answers 400 with one of three fixed messages (no image file; some
  field missing; date not read) and changes nothing. \<^verbatim>\<open>server.js\<close>, once the upload
  middleware has accepted the request, answers 500 with the model's ValidationError,
  which names every offending field; the collection is as it was.
\<close>

theorem invalid_create_rejected:
  "(offending (Date_new rt) body \<noteq> [] \<longrightarrow>
      app_post rt st i body upl =
        (respond 400 (Message
           (if upl = None then ''Image file is required.''
            else if (\<exists>k \<in> set requiredFields. falsy (map_of body k))
                 then ''All fields are required.''
            else ''Invalid date format.'')), st))
   \<and> (offending (castDate rt) body \<noteq> [] \<and> server_upload now st upl = (Inr fn, st1) \<longrightarrow>
        server_post rt st i now body upl =
          (respond 500 (Failure ''Error creating employee''
             (ValidationError (set (offending (castDate rt) body)))), st1)
        \<and> docs st1 = docs st)"
  using app_post_invalid [of rt body st i upl] server_post_invalid [of rt body now st upl fn st1 i]
    server_upload_docs [of now st upl "Inr fn" st1]
  by blast

theorem invalid_create_rejected_witness:
  "offending (Date_new sample_runtime) no_title_body = [''title'']
   \<and> app_post sample_runtime empty_state 7 no_title_body (Some sample_png) =
       (respond 400 (Message ''All fields are required.''), empty_state)
   \<and> server_post sample_runtime empty_state 7 1700000000000 no_title_body None =
       (respond 500 (Failure ''Error creating employee'' (ValidationError {''title''})),
        empty_state)"
proof -
  have o: "offending (Date_new sample_runtime) no_title_body = [''title'']"
    "offending (castDate sample_runtime) no_title_body = [''title'']"
    by (simp_all add: offending_def requiredFields_def no_title_body_def falsy_def textOf_def
        eval_defs)
  have f: "\<exists>k \<in> set requiredFields. falsy (map_of no_title_body k)"
    by (simp add: requiredFields_def no_title_body_def falsy_def)
  have u: "server_upload 1700000000000 empty_state None = (Inr None, empty_state)"
    by (simp add: server_upload_def)
  show ?thesis
    using invalid_create_rejected [of sample_runtime no_title_body empty_state 7 "Some sample_png"
        1700000000000 None empty_state]
      invalid_create_rejected [of sample_runtime no_title_body empty_state 7 None
        1700000000000 None empty_state] f u
    by (simp add: o)
qed

section \<open>Update\<close>

lemma map_of_applySet_other:
  "k \<notin> fst ` set sets \<Longrightarrow> map_of (applySet sets fs) k = map_of fs k"
  unfolding applySet_def
proof (induction sets arbitrary: fs)
  case Nil
  then show ?case by simp
next
  case (Cons p sets)
  obtain k' v' where p: "p = (k', v')" by (cases p)
  with Cons.prems have "k \<noteq> k'" "k \<notin> fst ` set sets" by auto
  with Cons.IH [of "AList.update k' v' fs"] p show ?case
    by (simp add: update_conv')
qed

lemma castUpdate_keys:
  "castUpdate rt sch ups = Inr sets \<Longrightarrow> (k, v) \<in> set sets \<Longrightarrow>
     \<exists>u. (k, u) \<in> set ups \<and> u \<noteq> Undefined"
proof (induction ups arbitrary: sets)
  case Nil
  then show ?case by simp
next
  case (Cons p ups)
  obtain k' v' where p: "p = (k', v')" by (cases p)
  show ?case
  proof (cases "map_of sch k'")
    case None
    with Cons p show ?thesis by fastforce
  next
    case (Some tr)
    obtain ty req where tr: "tr = (ty, req)" by (cases tr)
    show ?thesis
    proof (cases "v' = Undefined")
      case True
      with Cons p Some tr show ?thesis by fastforce
    next
      case False
      from Cons.prems(1) p Some tr False obtain w r where
        w: "castValue rt ty v' = Some w" and r: "castUpdate rt sch ups = Inr r"
        and s: "sets = (k', w) # r"
        by (auto split: option.splits sum.splits)
      from Cons.prems(2) s have "(k, v) = (k', w) \<or> (k, v) \<in> set r" by simp
      then show ?thesis
      proof
        assume "(k, v) = (k', w)"
        with p False show ?thesis by auto
      next
        assume "(k, v) \<in> set r"
        with Cons.IH [OF r] show ?thesis by auto
      qed
    qed
  qed
qed

lemma find_replaceDoc:
  "find (\<lambda>x. oid x = i) ds = Some d \<Longrightarrow> oid d' = i \<Longrightarrow>
     find (\<lambda>x. oid x = i) (replaceDoc i d' ds) = Some d'"
  by (induction ds) (auto split: if_splits)

lemma find_replaceDoc_other:
  "j \<noteq> i \<Longrightarrow> oid d' = i \<Longrightarrow>
     find (\<lambda>x. oid x = j) (replaceDoc i d' ds) = find (\<lambda>x. oid x = j) ds"
  by (induction ds) auto

lemma findById_oid: "findById st i = Some d \<Longrightarrow> oid d = i"
  by (auto simp: findById_def dest: find_Some_iff [THEN iffD1])

lemma findByIdAndUpdate_found:
  assumes "findById st i = Some d"
  shows "(\<exists>e. findByIdAndUpdate rt sch st i ups = (Inl e, st))
       \<or> (\<exists>sets. castUpdate rt sch ups = Inr sets
            \<and> findByIdAndUpdate rt sch st i ups =
                (Inr (Some (d\<lparr>props := applySet sets (props d)\<rparr>)),
                 st\<lparr>docs := replaceDoc i (d\<lparr>props := applySet sets (props d)\<rparr>) (docs st)\<rparr>))"
  using assms by (cases "castUpdate rt sch ups") (simp_all add: findByIdAndUpdate_def Let_def)

lemma updated_doc_frame:
  assumes "castUpdate rt sch ups = Inr sets"
    and "\<forall>u. (k, u) \<in> set ups \<longrightarrow> u = Undefined"
  shows "map_of (applySet sets fs) k = map_of fs k"
proof -
  have "k \<notin> fst ` set sets"
  proof
    assume "k \<in> fst ` set sets"
    then obtain v where "(k, v) \<in> set sets" by auto
    from castUpdate_keys [OF assms(1) this] assms(2) show False by blast
  qed
  then show ?thesis by (rule map_of_applySet_other)
qed

lemma findById_after_replace:
  assumes "findById st i = Some d" and "oid d' = i"
  shows "findById (st\<lparr>docs := replaceDoc i d' (docs st)\<rparr>) i = Some d'"
    and "j \<noteq> i \<Longrightarrow> findById (st\<lparr>docs := replaceDoc i d' (docs st)\<rparr>) j = findById st j"
  using assms by (simp_all add: findById_def find_replaceDoc find_replaceDoc_other)


lemma app_put_found:
  assumes "findById st i = Some d"
  shows "(\<exists>e. app_put rt st (ObjectId i s) body upl =
              (respond 500 (Failure ''Error updating Employee'' e), st))
       \<or> (\<exists>sets. castUpdate rt app_schema (app_updates body upl) = Inr sets
            \<and> app_put rt st (ObjectId i s) body upl =
                (respond 200 (Document (d\<lparr>props := applySet sets (props d)\<rparr>)),
                 st\<lparr>docs := replaceDoc i (d\<lparr>props := applySet sets (props d)\<rparr>) (docs st)\<rparr>))"
  using findByIdAndUpdate_found [OF assms, of rt app_schema "app_updates body upl"]
  by (auto simp: app_put_def)

lemma server_put_found:
  assumes "findById st1 i = Some d"
    and "server_upload now st upl = (Inr fn, st1)"
  shows "(\<exists>e. server_put rt st now (ObjectId i s) body upl =
              (respond 500 (Failure ''Error updating employee'' e), st1))
       \<or> (\<exists>sets. castUpdate rt server_schema (server_updatedData body fn) = Inr sets
            \<and> server_put rt st now (ObjectId i s) body upl =
                (respond 200 (Document (d\<lparr>props := applySet sets (props d)\<rparr>)),
                 st1\<lparr>docs := replaceDoc i (d\<lparr>props := applySet sets (props d)\<rparr>) (docs st1)\<rparr>))"
  using findByIdAndUpdate_found [OF assms(1), of rt server_schema "server_updatedData body fn"]
    assms(2)
  by (auto simp: server_put_def)

lemma app_updates_keys:
  assumes "(k, u) \<in> set (app_updates body upl)"
  shows "k \<in> fst ` set body \<or> (upl \<noteq> None \<and> k \<in> {''image'', ''contentType''})"
proof -
  have b: "fst ` set (bodyObject body) = fst ` set body"
    using clearjunk_keys_set [of body] by (force simp: bodyObject_def image_image)
  have "k \<in> set (map fst (app_updates body upl))"
    using assms by force
  then show ?thesis
    using b by (cases upl) (auto simp: app_updates_def update_keys split: if_splits)
qed

lemma server_updatedData_keys:
  assumes "(k, u) \<in> set (server_updatedData body fn)"
  shows "(k \<in> set requiredFields \<and> u = fieldVal body k) \<or> (k = ''image'' \<and> fn \<noteq> None)"
  using assms by (cases fn) (auto simp: server_updatedData_def requiredFields_def)

lemma server_upload_None_iff:
  assumes "server_upload now st upl = (Inr fn, st1)"
  shows "fn = None \<longleftrightarrow> upl = None"
  using assms by (auto simp: server_upload_def Let_def split: option.splits if_splits)

lemma findById_docs_cong: "docs st1 = docs st \<Longrightarrow> findById st1 i = findById st i"
  by (simp add: findById_def)

lemma app_put_address:
  assumes "findById st i = Some d"
  shows "app_put rt st (ObjectId i s) [(''address'', a)] None =
           (respond 200 (Document (d\<lparr>props := AList.update ''address'' (Str a) (props d)\<rparr>)),
            st\<lparr>docs := replaceDoc i (d\<lparr>props := AList.update ''address'' (Str a) (props d)\<rparr>)
                          (docs st)\<rparr>)"
  using assms
  by (simp add: app_put_def findByIdAndUpdate_def app_updates_def bodyObject_def app_schema_def
      applySet_def Let_def)

lemma server_put_address:
  assumes "findById st i = Some d"
  shows "server_put rt st now (ObjectId i s) [(''address'', a)] None =
           (respond 200 (Document (d\<lparr>props := AList.update ''address'' (Str a) (props d)\<rparr>)),
            st\<lparr>docs := replaceDoc i (d\<lparr>props := AList.update ''address'' (Str a) (props d)\<rparr>)
                          (docs st)\<rparr>)"
  using assms
  by (simp add: server_put_def server_upload_def findByIdAndUpdate_def server_updatedData_def
      fieldVal_def server_schema_def applySet_def Let_def)


lemma app_put_frame:
  assumes "findById st i = Some d"
  shows "case app_put rt st (ObjectId i s) body upl of (r, st') \<Rightarrow>
            (status r = 500 \<and> st' = st) \<or>
            (\<exists>d'. r = respond 200 (Document d') \<and> findById st' i = Some d' \<and> oid d' = i \<and>
               (\<forall>k. k \<notin> fst ` set body \<and> (upl = None \<or> k \<notin> {''image'', ''contentType''}) \<longrightarrow>
                    map_of (props d') k = map_of (props d) k) \<and>
               (\<forall>j. j \<noteq> i \<longrightarrow> findById st' j = findById st j))"
  using app_put_found [OF assms, where rt = rt and s = s and body = body and upl = upl]
proof
  assume "\<exists>e. app_put rt st (ObjectId i s) body upl =
              (respond 500 (Failure ''Error updating Employee'' e), st)"
  then show ?thesis by (auto simp: respond_def)
next
  assume "\<exists>sets. castUpdate rt app_schema (app_updates body upl) = Inr sets
            \<and> app_put rt st (ObjectId i s) body upl =
                (respond 200 (Document (d\<lparr>props := applySet sets (props d)\<rparr>)),
                 st\<lparr>docs := replaceDoc i (d\<lparr>props := applySet sets (props d)\<rparr>) (docs st)\<rparr>)"
  then obtain sets where c: "castUpdate rt app_schema (app_updates body upl) = Inr sets"
    and p: "app_put rt st (ObjectId i s) body upl =
                (respond 200 (Document (d\<lparr>props := applySet sets (props d)\<rparr>)),
                 st\<lparr>docs := replaceDoc i (d\<lparr>props := applySet sets (props d)\<rparr>) (docs st)\<rparr>)"
    by blast
  let ?d' = "d\<lparr>props := applySet sets (props d)\<rparr>"
  have o: "oid ?d' = i"
    using findById_oid [OF assms] by simp
  have f: "map_of (props ?d') k = map_of (props d) k"
    if "k \<notin> fst ` set body \<and> (upl = None \<or> k \<notin> {''image'', ''contentType''})" for k
  proof -
    have "\<forall>u. (k, u) \<in> set (app_updates body upl) \<longrightarrow> u = Undefined"
      using that app_updates_keys [of k _ body upl] by blast
    with c show ?thesis
      by (simp add: updated_doc_frame)
  qed
  have "\<exists>d'. respond 200 (Document ?d') = respond 200 (Document d')
          \<and> findById (st\<lparr>docs := replaceDoc i ?d' (docs st)\<rparr>) i = Some d' \<and> oid d' = i
          \<and> (\<forall>k. k \<notin> fst ` set body \<and> (upl = None \<or> k \<notin> {''image'', ''contentType''}) \<longrightarrow>
                 map_of (props d') k = map_of (props d) k)
          \<and> (\<forall>j. j \<noteq> i \<longrightarrow> findById (st\<lparr>docs := replaceDoc i ?d' (docs st)\<rparr>) j = findById st j)"
  proof (intro exI [of _ ?d'] conjI allI impI)
    show "respond 200 (Document ?d') = respond 200 (Document ?d')" ..
    show "findById (st\<lparr>docs := replaceDoc i ?d' (docs st)\<rparr>) i = Some ?d'"
      using assms o by (rule findById_after_replace(1))
    show "oid ?d' = i" by (rule o)
    show "map_of (props ?d') k = map_of (props d) k"
      if "k \<notin> fst ` set body \<and> (upl = None \<or> k \<notin> {''image'', ''contentType''})" for k
      using that by (rule f)
    show "findById (st\<lparr>docs := replaceDoc i ?d' (docs st)\<rparr>) j = findById st j" if "j \<noteq> i" for j
      using assms o that by (rule findById_after_replace(2))
  qed
  then show ?thesis
    by (simp only: p prod.case) blast
qed

lemma server_put_frame:
  assumes "findById st i = Some d"
  shows "case server_put rt st now (ObjectId i s) body upl of (r, st') \<Rightarrow>
            (status r = 500 \<and> docs st' = docs st) \<or>
            (\<exists>d'. r = respond 200 (Document d') \<and> findById st' i = Some d' \<and> oid d' = i \<and>
               (\<forall>k. (k \<in> set requiredFields \<longrightarrow> map_of body k = None) \<and> (k = ''image'' \<longrightarrow> upl = None) \<longrightarrow>
                    map_of (props d') k = map_of (props d) k) \<and>
               (\<forall>j. j \<noteq> i \<longrightarrow> findById st' j = findById st j))"
proof -
  obtain u st1 where up: "server_upload now st upl = (u, st1)"
    by (cases "server_upload now st upl")
  have ds: "docs st1 = docs st"
    using up by (rule server_upload_docs)
  show ?thesis
  proof (cases u)
    case (Inl e)
    with up ds show ?thesis
      by (simp add: server_put_def respond_def)
  next
    case (Inr fn)
    with up have up': "server_upload now st upl = (Inr fn, st1)" by simp
    have f1: "findById st1 i = Some d"
      using assms by (simp add: findById_docs_cong [OF ds])
    from server_put_found [OF f1 up', where rt = rt and s = s and body = body] show ?thesis
    proof
      assume "\<exists>e. server_put rt st now (ObjectId i s) body upl =
              (respond 500 (Failure ''Error updating employee'' e), st1)"
      then obtain e where "server_put rt st now (ObjectId i s) body upl =
              (respond 500 (Failure ''Error updating employee'' e), st1)" by blast
      with ds show ?thesis by (simp add: respond_def)
    next
      assume "\<exists>sets. castUpdate rt server_schema (server_updatedData body fn) = Inr sets
            \<and> server_put rt st now (ObjectId i s) body upl =
                (respond 200 (Document (d\<lparr>props := applySet sets (props d)\<rparr>)),
                 st1\<lparr>docs := replaceDoc i (d\<lparr>props := applySet sets (props d)\<rparr>) (docs st1)\<rparr>)"
      then obtain sets where c: "castUpdate rt server_schema (server_updatedData body fn) = Inr sets"
        and p: "server_put rt st now (ObjectId i s) body upl =
                (respond 200 (Document (d\<lparr>props := applySet sets (props d)\<rparr>)),
                 st1\<lparr>docs := replaceDoc i (d\<lparr>props := applySet sets (props d)\<rparr>) (docs st1)\<rparr>)"
        by blast
      let ?d' = "d\<lparr>props := applySet sets (props d)\<rparr>"
      have o: "oid ?d' = i"
        using findById_oid [OF assms] by simp
      have f: "map_of (props ?d') k = map_of (props d) k"
        if k: "(k \<in> set requiredFields \<longrightarrow> map_of body k = None) \<and> (k = ''image'' \<longrightarrow> upl = None)" for k
      proof -
        have "v = Undefined" if m: "(k, v) \<in> set (server_updatedData body fn)" for v
        proof -
          from server_updatedData_keys [OF m]
          have "(k \<in> set requiredFields \<and> v = fieldVal body k) \<or> (k = ''image'' \<and> fn \<noteq> None)" .
          moreover have "\<not> (k = ''image'' \<and> fn \<noteq> None)"
            using k server_upload_None_iff [OF up'] by blast
          ultimately have "k \<in> set requiredFields" "v = fieldVal body k" by blast+
          with k have "map_of body k = None" by blast
          with \<open>v = fieldVal body k\<close> show ?thesis by (simp add: fieldVal_def)
        qed
        then have "\<forall>u. (k, u) \<in> set (server_updatedData body fn) \<longrightarrow> u = Undefined"
          by blast
        with c show ?thesis
          by (simp add: updated_doc_frame)
      qed
      have j: "findById (st1\<lparr>docs := replaceDoc i ?d' (docs st1)\<rparr>) j = findById st j" if "j \<noteq> i" for j
        using findById_after_replace(2) [OF f1 o that] by (simp add: findById_docs_cong [OF ds])
      have "\<exists>d'. respond 200 (Document ?d') = respond 200 (Document d')
          \<and> findById (st1\<lparr>docs := replaceDoc i ?d' (docs st1)\<rparr>) i = Some d' \<and> oid d' = i
          \<and> (\<forall>k. (k \<in> set requiredFields \<longrightarrow> map_of body k = None) \<and> (k = ''image'' \<longrightarrow> upl = None) \<longrightarrow>
                 map_of (props d') k = map_of (props d) k)
          \<and> (\<forall>j. j \<noteq> i \<longrightarrow> findById (st1\<lparr>docs := replaceDoc i ?d' (docs st1)\<rparr>) j = findById st j)"
      proof (intro exI [of _ ?d'] conjI allI impI)
        show "respond 200 (Document ?d') = respond 200 (Document ?d')" ..
        show "findById (st1\<lparr>docs := replaceDoc i ?d' (docs st1)\<rparr>) i = Some ?d'"
          using f1 o by (rule findById_after_replace(1))
        show "oid ?d' = i" by (rule o)
        show "map_of (props ?d') k = map_of (props d) k"
          if "(k \<in> set requiredFields \<longrightarrow> map_of body k = None) \<and> (k = ''image'' \<longrightarrow> upl = None)" for k
          using that by (rule f)
        show "findById (st1\<lparr>docs := replaceDoc i ?d' (docs st1)\<rparr>) j = findById st j" if "j \<noteq> i" for j
          using that by (rule j)
      qed
      then show ?thesis
        by (simp only: p prod.case) blast
    qed
  qed
qed

text \<open>
  C1. An update of an existing record either fails (status 500) and leaves the
  collection as it was, or answers 200 with the stored record after the update, in
  which every field the request omitted has the value it had before, and every other
  record is as it was. A field is omitted in \<^verbatim>\<open>app.js\<close> when the form has no field of
  that name and, for \<^verbatim>\<open>image\<close> and \<^verbatim>\<open>contentType\<close>, no file is sent; in \<^verbatim>\<open>server.js\<close>
  when the form has no field of that name and, for \<^verbatim>\<open>image\<close>, no file is sent (there
  the handler always builds the five keys, and the omitted ones, \<^verbatim>\<open>undefined\<close>, are
  dropped from the update document). An update with only \<^verbatim>\<open>address\<close> stores the record
  with that address and nothing else changed.
\<close>

theorem update_keeps_omitted_fields:
  assumes "findById st i = Some d"
  shows "(case app_put rt st (ObjectId i s) body upl of (r, st') \<Rightarrow>
            (status r = 500 \<and> st' = st) \<or>
            (\<exists>d'. r = respond 200 (Document d') \<and> findById st' i = Some d' \<and> oid d' = i \<and>
               (\<forall>k. k \<notin> fst ` set body \<and> (upl = None \<or> k \<notin> {''image'', ''contentType''}) \<longrightarrow>
                    map_of (props d') k = map_of (props d) k) \<and>
               (\<forall>j. j \<noteq> i \<longrightarrow> findById st' j = findById st j)))
       \<and> (case server_put rt st now (ObjectId i s) body upl of (r, st') \<Rightarrow>
            (status r = 500 \<and> docs st' = docs st) \<or>
            (\<exists>d'. r = respond 200 (Document d') \<and> findById st' i = Some d' \<and> oid d' = i \<and>
               (\<forall>k. (k \<in> set requiredFields \<longrightarrow> map_of body k = None) \<and> (k = ''image'' \<longrightarrow> upl = None) \<longrightarrow>
                    map_of (props d') k = map_of (props d) k) \<and>
               (\<forall>j. j \<noteq> i \<longrightarrow> findById st' j = findById st j)))
       \<and> app_put rt st (ObjectId i s) [(''address'', a)] None =
           (respond 200 (Document (d\<lparr>props := AList.update ''address'' (Str a) (props d)\<rparr>)),
            st\<lparr>docs := replaceDoc i (d\<lparr>props := AList.update ''address'' (Str a) (props d)\<rparr>)
                          (docs st)\<rparr>)
       \<and> server_put rt st now (ObjectId i s) [(''address'', a)] None =
           (respond 200 (Document (d\<lparr>props := AList.update ''address'' (Str a) (props d)\<rparr>)),
            st\<lparr>docs := replaceDoc i (d\<lparr>props := AList.update ''address'' (Str a) (props d)\<rparr>)
                          (docs st)\<rparr>)"
  using app_put_frame [OF assms, where rt = rt and s = s and body = body and upl = upl]
    server_put_frame [OF assms, where rt = rt and now = now and s = s and body = body and upl = upl]
    app_put_address [OF assms, where rt = rt and s = s and a = a]
    server_put_address [OF assms, where rt = rt and now = now and s = s and a = a]
  by (intro conjI)

theorem update_keeps_omitted_fields_witness:
  "findById inline_state 7 = Some inline_doc
   \<and> app_put sample_runtime inline_state (ObjectId 7 ''7'') address_body None =
       (respond 200 (Document
          \<lparr>oid = 7,
           props = [(''title'', Str ''Mr''), (''image'', Buf ''PNG''), (''name'', Str ''Ada''),
                    (''designation'', Str ''Engineer''), (''dob'', DateVal 631152000000),
                    (''address'', Str ''2 Side St''), (''contentType'', Str ''image/png'')]\<rparr>),
        \<lparr>docs = [\<lparr>oid = 7,
           props = [(''title'', Str ''Mr''), (''image'', Buf ''PNG''), (''name'', Str ''Ada''),
                    (''designation'', Str ''Engineer''), (''dob'', DateVal 631152000000),
                    (''address'', Str ''2 Side St''), (''contentType'', Str ''image/png'')]\<rparr>],
         uploads = []\<rparr>)
   \<and> fst (server_put sample_runtime inline_state 0 (ObjectId 7 ''7'') address_body None) =
       respond 200 (Document
          \<lparr>oid = 7,
           props = [(''title'', Str ''Mr''), (''image'', Buf ''PNG''), (''name'', Str ''Ada''),
                    (''designation'', Str ''Engineer''), (''dob'', DateVal 631152000000),
                    (''address'', Str ''2 Side St''), (''contentType'', Str ''image/png'')]\<rparr>)"
proof -
  have h: "findById inline_state 7 = Some inline_doc"
    by (simp add: findById_def inline_state_def inline_doc_def)
  show ?thesis
    using h update_keeps_omitted_fields [OF h, where rt = sample_runtime and s = "''7''"
        and body = address_body and upl = None and now = 0 and a = "''2 Side St''"]
    by (simp add: address_body_def inline_state_def inline_doc_def)
qed

section \<open>Create, then read\<close>

lemma findById_appended:
  assumes "findById st i = None" and "oid d = i"
  shows "findById (st\<lparr>docs := docs st @ [d]\<rparr>) i = Some d"
  using assms by (simp add: findById_def find_append_None)

lemma app_post_valid:
  assumes "submitted body title name designation dob address"
    and "Date_new rt dob = Some t"
    and "content f \<noteq> []"
    and "findById st i = None"
  shows "app_post rt st i body (Some f) =
           (respond 201 (Document (inlineRecord i title name designation t address
              (Buf (content f))
              (if mimetype f = [] then ''application/octet-stream'' else mimetype f))),
            st\<lparr>docs := docs st @ [inlineRecord i title name designation t address
              (Buf (content f))
              (if mimetype f = [] then ''application/octet-stream'' else mimetype f)]\<rparr>)"
  using assms
  by (simp add: submitted_def app_post_def falsy_def textOf_def Model_save_def app_schema_def
      pathFails_def pathField_def getField_def List.map_filter_def inlineRecord_def Let_def)

lemma server_post_valid:
  assumes "submitted body title name designation dob address"
    and "castDate rt dob = Some t"
    and "server_upload now st upl = (Inr fn, st1)"
    and "findById st i = None"
  shows "server_post rt st i now body upl =
           (respond 201 (Document (externalRecord i title name designation t address
              (case fn of Some n \<Rightarrow> Str (''/uploads/'' @ n) | None \<Rightarrow> Null))),
            st1\<lparr>docs := docs st1 @ [externalRecord i title name designation t address
              (case fn of Some n \<Rightarrow> Str (''/uploads/'' @ n) | None \<Rightarrow> Null)]\<rparr>)"
proof -
  have "findById st1 i = None"
    using assms(4) by (simp add: findById_docs_cong [OF server_upload_docs [OF assms(3)]])
  with assms(1,2,3) show ?thesis
    by (cases fn)
      (simp_all add: submitted_def server_post_def fieldVal_def Model_save_def server_schema_def
        pathFails_def pathField_def getField_def List.map_filter_def externalRecord_def Let_def)
qed


lemma app_get_one_inline:
  assumes "findById st i = Some (inlineRecord i title name designation t address (Buf b) ct)"
  shows "app_get_one st (ObjectId i s) =
           respond 200 (Document (inlineRecord i title name designation t address
             (Str (''data:'' @ ct @ '';base64,'' @ base64 b)) ct))"
  using assms
  by (simp add: app_get_one_def inlineRecord_def dataUri_def templateStr_def)

lemma server_upload_accepts:
  assumes "startsWith (mimetype f) ''image/''"
  shows "server_upload now st (Some f) =
           (Inr (Some (showNat now @ ''-'' @ originalname f)),
            st\<lparr>uploads := AList.update (showNat now @ ''-'' @ originalname f) (content f)
                              (uploads st)\<rparr>)"
  using assms by (simp add: server_upload_def Let_def)

text \<open>
  C4. A create request with the five fields present and not empty, a date of birth the
  runtime reads as a date, and an identifier not yet in the collection is answered 201,
  and reading the identifier afterwards answers 200 with the submitted title, name,
  designation and address and the date read from the submitted date of birth. In
  \<^verbatim>\<open>app.js\<close> (a file with at least one byte) the image read back is the data URI of the
  submitted bytes and of the submitted content type (the generic binary type when none
  was declared). In \<^verbatim>\<open>server.js\<close> (a file declared as an image, or no file) the image
  read back is the path of the stored file, which resolves in the upload directory to
  the submitted bytes, or \<^verbatim>\<open>null\<close> without a file.
\<close>

theorem create_then_read:
  assumes "submitted body title name designation dob address"
    and "findById st i = None"
  shows "(Date_new rt dob = Some t \<and> content f \<noteq> [] \<longrightarrow>
            (\<exists>st'. app_post rt st i body (Some f) =
                 (respond 201 (Document (inlineRecord i title name designation t address
                    (Buf (content f))
                    (if mimetype f = [] then ''application/octet-stream'' else mimetype f))), st')
               \<and> app_get_one st' (ObjectId i s) =
                   respond 200 (Document (inlineRecord i title name designation t address
                     (Str (''data:''
                           @ (if mimetype f = [] then ''application/octet-stream'' else mimetype f)
                           @ '';base64,'' @ base64 (content f)))
                     (if mimetype f = [] then ''application/octet-stream'' else mimetype f)))))
       \<and> (castDate rt dob = Some t \<and> startsWith (mimetype f) ''image/'' \<longrightarrow>
            (\<exists>st'. server_post rt st i now body (Some f) =
                 (respond 201 (Document (externalRecord i title name designation t address
                    (Str (''/uploads/'' @ showNat now @ ''-'' @ originalname f)))), st')
               \<and> server_get_one st' (ObjectId i s) =
                   respond 200 (Document (externalRecord i title name designation t address
                     (Str (''/uploads/'' @ showNat now @ ''-'' @ originalname f))))
               \<and> resolve st' (''/uploads/'' @ showNat now @ ''-'' @ originalname f) =
                   Some (content f)))
       \<and> (castDate rt dob = Some t \<longrightarrow>
            (\<exists>st'. server_post rt st i now body None =
                 (respond 201 (Document (externalRecord i title name designation t address Null)),
                  st')
               \<and> server_get_one st' (ObjectId i s) =
                   respond 200 (Document (externalRecord i title name designation t address Null))))"
proof (intro conjI impI)
  assume a: "Date_new rt dob = Some t \<and> content f \<noteq> []"
  let ?ct = "if mimetype f = [] then ''application/octet-stream'' else mimetype f"
  let ?d = "inlineRecord i title name designation t address (Buf (content f)) ?ct"
  have p: "app_post rt st i body (Some f) = (respond 201 (Document ?d), st\<lparr>docs := docs st @ [?d]\<rparr>)"
    using assms(1) a assms(2) by (simp add: app_post_valid)
  have "findById (st\<lparr>docs := docs st @ [?d]\<rparr>) i = Some ?d"
    using assms(2) by (rule findById_appended) (simp add: inlineRecord_def)
  then have "app_get_one (st\<lparr>docs := docs st @ [?d]\<rparr>) (ObjectId i s) =
      respond 200 (Document (inlineRecord i title name designation t address
         (Str (''data:'' @ ?ct @ '';base64,'' @ base64 (content f))) ?ct))"
    by (rule app_get_one_inline)
  with p show "\<exists>st'. app_post rt st i body (Some f) = (respond 201 (Document ?d), st')
      \<and> app_get_one st' (ObjectId i s) =
          respond 200 (Document (inlineRecord i title name designation t address
            (Str (''data:'' @ ?ct @ '';base64,'' @ base64 (content f))) ?ct))"
    by blast
next
  assume a: "castDate rt dob = Some t \<and> startsWith (mimetype f) ''image/''"
  let ?n = "showNat now @ ''-'' @ originalname f"
  let ?d = "externalRecord i title name designation t address (Str (''/uploads/'' @ ?n))"
  let ?st1 = "st\<lparr>uploads := AList.update ?n (content f) (uploads st)\<rparr>"
  let ?st' = "?st1\<lparr>docs := docs ?st1 @ [?d]\<rparr>"
  have u: "server_upload now st (Some f) = (Inr (Some ?n), ?st1)"
    using a by (simp add: server_upload_accepts)
  have p: "server_post rt st i now body (Some f) = (respond 201 (Document ?d), ?st')"
    using server_post_valid [OF assms(1) _ u assms(2)] a by simp
  have "findById ?st1 i = None"
    using assms(2) by (simp add: findById_def)
  then have "findById ?st' i = Some ?d"
    by (rule findById_appended) (simp add: externalRecord_def)
  then have g: "server_get_one ?st' (ObjectId i s) = respond 200 (Document ?d)"
    by (simp add: server_get_one_def)
  have r: "resolve ?st' (''/uploads/'' @ ?n) = Some (content f)"
    by (simp add: resolve_def startsWith_def update_conv')
  from p g r show "\<exists>st'. server_post rt st i now body (Some f) = (respond 201 (Document ?d), st')
      \<and> server_get_one st' (ObjectId i s) = respond 200 (Document ?d)
      \<and> resolve st' (''/uploads/'' @ ?n) = Some (content f)"
    by blast
next
  assume a: "castDate rt dob = Some t"
  let ?d = "externalRecord i title name designation t address Null"
  let ?st' = "st\<lparr>docs := docs st @ [?d]\<rparr>"
  have u: "server_upload now st None = (Inr None, st)"
    by (simp add: server_upload_def)
  have p: "server_post rt st i now body None = (respond 201 (Document ?d), ?st')"
    using server_post_valid [OF assms(1) a u assms(2)] by simp
  have "findById ?st' i = Some ?d"
    using assms(2) by (rule findById_appended) (simp add: externalRecord_def)
  then have g: "server_get_one ?st' (ObjectId i s) = respond 200 (Document ?d)"
    by (simp add: server_get_one_def)
  from p g show "\<exists>st'. server_post rt st i now body None = (respond 201 (Document ?d), st')
      \<and> server_get_one st' (ObjectId i s) = respond 200 (Document ?d)"
    by blast
qed


theorem create_then_read_witness:
  "submitted sample_body ''Mr'' ''Ada'' ''Engineer'' ''1990-01-01'' ''1 Main St''
   \<and> findById empty_state 7 = None
   \<and> app_get_one inline_state (ObjectId 7 ''7'') =
       respond 200 (Document (inlineRecord 7 ''Mr'' ''Ada'' ''Engineer'' 631152000000 ''1 Main St''
         (Str ''data:image/png;base64,UE5H'') ''image/png''))
   \<and> server_get_one external_state (ObjectId 7 ''7'') =
       respond 200 (Document (externalRecord 7 ''Mr'' ''Ada'' ''Engineer'' 631152000000 ''1 Main St''
         (Str ''/uploads/1700000000000-ada.png'')))
   \<and> resolve external_state ''/uploads/1700000000000-ada.png'' = Some ''PNG''"
proof -
  have h1: "submitted sample_body ''Mr'' ''Ada'' ''Engineer'' ''1990-01-01'' ''1 Main St''"
    by (simp add: submitted_def sample_body_def)
  have h2: "findById empty_state 7 = None"
    by (simp add: findById_def empty_state_def)
  have d: "Date_new sample_runtime ''1990-01-01'' = Some 631152000000"
    "castDate sample_runtime ''1990-01-01'' = Some 631152000000"
    by (simp_all add: eval_defs)
  have c: "content sample_png = ''PNG''" "mimetype sample_png = ''image/png''"
    "originalname sample_png = ''ada.png''" "startsWith ''image/png'' ''image/''"
    by (simp_all add: sample_png_def startsWith_def)
  have n: "showNat 1700000000000 = ''1700000000000''"
    by (simp add: showNat.simps digitChar_def)
  have i: "inlineRecord 7 ''Mr'' ''Ada'' ''Engineer'' 631152000000 ''1 Main St'' (Buf ''PNG'')
             ''image/png'' = inline_doc"
    by (simp add: inlineRecord_def inline_doc_def)
  have e: "externalRecord 7 ''Mr'' ''Ada'' ''Engineer'' 631152000000 ''1 Main St''
             (Str ''/uploads/1700000000000-ada.png'') = external_doc"
    by (simp add: externalRecord_def external_doc_def)
  note t = create_then_read [OF h1 h2, where rt = sample_runtime and t = 631152000000
      and f = sample_png and s = "''7''" and now = 1700000000000]
  from t have "\<exists>st'. app_post sample_runtime empty_state 7 sample_body (Some sample_png) =
                 (respond 201 (Document (inlineRecord 7 ''Mr'' ''Ada'' ''Engineer'' 631152000000
                     ''1 Main St'' (Buf ''PNG'') ''image/png'')), st')
               \<and> app_get_one st' (ObjectId 7 ''7'') =
                   respond 200 (Document (inlineRecord 7 ''Mr'' ''Ada'' ''Engineer'' 631152000000
                     ''1 Main St'' (Str ''data:image/png;base64,UE5H'') ''image/png''))"
    by (simp add: d c b64char_def)
  then have a: "app_get_one inline_state (ObjectId 7 ''7'') =
       respond 200 (Document (inlineRecord 7 ''Mr'' ''Ada'' ''Engineer'' 631152000000 ''1 Main St''
         (Str ''data:image/png;base64,UE5H'') ''image/png''))"
    by (simp add: app_post_sample i)
  from t have "\<exists>st'. server_post sample_runtime empty_state 7 1700000000000 sample_body
                 (Some sample_png) =
                 (respond 201 (Document (externalRecord 7 ''Mr'' ''Ada'' ''Engineer'' 631152000000
                    ''1 Main St'' (Str ''/uploads/1700000000000-ada.png''))), st')
               \<and> server_get_one st' (ObjectId 7 ''7'') =
                   respond 200 (Document (externalRecord 7 ''Mr'' ''Ada'' ''Engineer'' 631152000000
                    ''1 Main St'' (Str ''/uploads/1700000000000-ada.png'')))
               \<and> resolve st' ''/uploads/1700000000000-ada.png'' = Some ''PNG''"
    by (simp add: d c n)
  then have s: "server_get_one external_state (ObjectId 7 ''7'') =
                   respond 200 (Document (externalRecord 7 ''Mr'' ''Ada'' ''Engineer'' 631152000000
                    ''1 Main St'' (Str ''/uploads/1700000000000-ada.png'')))
               \<and> resolve external_state ''/uploads/1700000000000-ada.png'' = Some ''PNG''"
    by (simp add: server_post_sample e)
  from h1 h2 a s show ?thesis
    by blast
qed

section \<open>Every handler keeps the identifiers unique\<close>

text \<open>
  The properties above that assume unique identifiers hold in every state the handlers
  can reach from the empty collection: each handler keeps the identifiers unique.
\<close>

lemma wf_docs_cong: "docs st' = docs st \<Longrightarrow> wf st' = wf st"
  by (simp add: wf_def)

lemma app_post_state:
  "snd (app_post rt st i body upl) = st
   \<or> (\<exists>obj r. Model_save rt app_schema st i obj = (r, snd (app_post rt st i body upl)))"
proof (cases upl)
  case None
  then show ?thesis by (simp add: app_post_def)
next
  case (Some f)
  show ?thesis
  proof (cases "falsy (map_of body ''title'') \<or> falsy (map_of body ''name'') \<or>
      falsy (map_of body ''designation'') \<or> falsy (map_of body ''dob'') \<or>
      falsy (map_of body ''address'')")
    case True
    with Some show ?thesis by (simp add: app_post_def Let_def)
  next
    case False
    note nf = this
    show ?thesis
    proof (cases "Date_new rt (textOf (map_of body ''dob''))")
      case None
      with Some nf show ?thesis by (simp add: app_post_def Let_def)
    next
      case (Some t)
      define obj where "obj =
        [(''image'', Buf (content f)),
         (''title'', Str (textOf (map_of body ''title''))),
         (''name'', Str (textOf (map_of body ''name''))),
         (''designation'', Str (textOf (map_of body ''designation''))),
         (''dob'', DateVal t),
         (''address'', Str (textOf (map_of body ''address''))),
         (''contentType'',
            Str (if mimetype f = [] then ''application/octet-stream'' else mimetype f))]"
      obtain r st2 where m: "Model_save rt app_schema st i obj = (r, st2)"
        by (cases "Model_save rt app_schema st i obj")
      have "snd (app_post rt st i body upl) = st2"
        using \<open>upl = Some f\<close> nf Some m [unfolded obj_def]
        by (cases r) (simp_all add: app_post_def Let_def)
      with m show ?thesis by blast
    qed
  qed
qed

lemma wf_app_post:
  assumes "wf st"
  shows "wf (snd (app_post rt st i body upl))"
proof -
  from app_post_state [of rt st i body upl] show ?thesis
  proof
    assume "snd (app_post rt st i body upl) = st"
    with assms show ?thesis by simp
  next
    assume "\<exists>obj r. Model_save rt app_schema st i obj = (r, snd (app_post rt st i body upl))"
    then obtain obj r where
      "Model_save rt app_schema st i obj = (r, snd (app_post rt st i body upl))" by blast
    with assms show ?thesis by (rule wf_Model_save)
  qed
qed

lemma server_post_state:
  "docs (snd (server_post rt st i now body upl)) = docs st
   \<or> (\<exists>obj r st1. docs st1 = docs st
         \<and> Model_save rt server_schema st1 i obj = (r, snd (server_post rt st i now body upl)))"
proof (cases "server_upload now st upl")
  case (Pair u st1)
  have d1: "docs st1 = docs st"
    using Pair by (rule server_upload_docs)
  show ?thesis
  proof (cases u)
    case (Inl e)
    with Pair d1 show ?thesis by (simp add: server_post_def)
  next
    case (Inr fn)
    obtain r st2 where m: "Model_save rt server_schema st1 i (server_obj body
        (case fn of Some n \<Rightarrow> Str (''/uploads/'' @ n) | None \<Rightarrow> Null)) = (r, st2)"
      by (cases "Model_save rt server_schema st1 i (server_obj body
        (case fn of Some n \<Rightarrow> Str (''/uploads/'' @ n) | None \<Rightarrow> Null))")
    have "snd (server_post rt st i now body upl) = st2"
      using Pair Inr m [unfolded server_obj_def]
      by (cases r) (simp_all add: server_post_def Let_def)
    with m d1 show ?thesis by blast
  qed
qed

lemma wf_server_post:
  assumes "wf st"
  shows "wf (snd (server_post rt st i now body upl))"
proof -
  from server_post_state [of rt st i now body upl] show ?thesis
  proof
    assume "docs (snd (server_post rt st i now body upl)) = docs st"
    with assms show ?thesis by (simp add: wf_def)
  next
    assume "\<exists>obj r st1. docs st1 = docs st
         \<and> Model_save rt server_schema st1 i obj = (r, snd (server_post rt st i now body upl))"
    then obtain obj r st1 where d: "docs st1 = docs st"
      and m: "Model_save rt server_schema st1 i obj = (r, snd (server_post rt st i now body upl))"
      by blast
    from assms d have "wf st1" by (simp add: wf_def)
    then show ?thesis using m by (rule wf_Model_save)
  qed
qed

lemma map_oid_replaceDoc: "oid d' = i \<Longrightarrow> map oid (replaceDoc i d' ds) = map oid ds"
  by (induction ds) auto

lemma wf_findByIdAndUpdate:
  assumes "wf st"
  shows "wf (snd (findByIdAndUpdate rt sch st i ups))"
proof (cases "castUpdate rt sch ups")
  case (Inl e)
  with assms show ?thesis by (simp add: findByIdAndUpdate_def)
next
  case (Inr sets)
  show ?thesis
  proof (cases "findById st i")
    case None
    with Inr assms show ?thesis by (simp add: findByIdAndUpdate_def)
  next
    case (Some d)
    then have "oid d = i" by (rule findById_oid)
    with Inr Some assms show ?thesis
      by (simp add: findByIdAndUpdate_def Let_def wf_def map_oid_replaceDoc)
  qed
qed

lemma wf_app_put:
  assumes "wf st"
  shows "wf (snd (app_put rt st idp body upl))"
proof (cases idp)
  case (ObjectId i s)
  have "snd (app_put rt st idp body upl) =
          snd (findByIdAndUpdate rt app_schema st i (app_updates body upl))"
    using ObjectId
    by (simp add: app_put_def split: prod.splits sum.splits option.splits)
  with assms show ?thesis by (simp add: wf_findByIdAndUpdate)
next
  case (NotObjectId s)
  with assms show ?thesis by (simp add: app_put_def)
qed

lemma wf_server_put:
  assumes "wf st"
  shows "wf (snd (server_put rt st now idp body upl))"
proof (cases "server_upload now st upl")
  case (Pair u st1)
  have "docs st1 = docs st"
    using Pair by (rule server_upload_docs)
  with assms have w1: "wf st1" by (simp add: wf_def)
  show ?thesis
  proof (cases u)
    case (Inl e)
    with Pair w1 show ?thesis by (simp add: server_put_def)
  next
    case (Inr fn)
    show ?thesis
    proof (cases idp)
      case (ObjectId i s)
      have "snd (server_put rt st now idp body upl) =
          snd (findByIdAndUpdate rt server_schema st1 i (server_updatedData body fn))"
        using ObjectId Pair Inr
        by (simp add: server_put_def split: prod.splits sum.splits option.splits)
      with w1 show ?thesis by (simp add: wf_findByIdAndUpdate)
    next
      case (NotObjectId s)
      with Pair Inr w1 show ?thesis by (simp add: server_put_def)
    qed
  qed
qed

lemma wf_app_delete:
  assumes "wf st"
  shows "wf (snd (app_delete st idp))"
proof (cases idp)
  case (ObjectId i s)
  have "snd (app_delete st idp) = snd (findByIdAndDelete st i)"
    using ObjectId by (simp add: app_delete_def split: prod.splits option.splits)
  with assms show ?thesis by (simp add: wf_findByIdAndDelete)
next
  case (NotObjectId s)
  with assms show ?thesis by (simp add: app_delete_def)
qed

lemma wf_server_delete:
  assumes "wf st"
  shows "wf (snd (server_delete st idp))"
proof (cases idp)
  case (ObjectId i s)
  have "snd (server_delete st idp) = snd (findByIdAndDelete st i)"
    using ObjectId by (simp add: server_delete_def split: prod.splits option.splits)
  with assms show ?thesis by (simp add: wf_findByIdAndDelete)
next
  case (NotObjectId s)
  with assms show ?thesis by (simp add: server_delete_def)
qed

lemma wf_empty: "wf empty_state"
  by (simp add: wf_def empty_state_def)

section \<open>The data URI (app.js)\<close>

text \<open>
  C9. In \<^verbatim>\<open>app.js\<close> the listing answers a prefix of the stored documents, each as it is
  stored (the image a Buffer), and all of them when no limit is given; only the fetch by
  identifier replaces the image of a stored record by the data URI made of its content
  type and the base64 text of its bytes. The document that a successful create or
  update answers is the stored one as well.
\<close>

theorem data_uri_only_on_fetch:
  assumes "findById st i = Some d"
    and "map_of (props d) ''image'' = Some (Buf b)"
    and "map_of (props d) ''contentType'' = Some (Str ct)"
  shows "app_get_one st (ObjectId i s) =
           respond 200 (Document (d\<lparr>props :=
             AList.update ''image'' (Str (''data:'' @ ct @ '';base64,'' @ base64 b)) (props d)\<rparr>))
       \<and> (\<exists>n. app_get_all st limit = respond 200 (Documents (take n (docs st))))
       \<and> app_get_all st NaN = respond 200 (Documents (docs st))
       \<and> (\<forall>rt j body upl r st'. app_post rt st j body upl = (r, st') \<and> status r = 201 \<longrightarrow>
             (\<exists>e. r = respond 201 (Document e) \<and> findById st' j = Some e))
       \<and> (\<forall>rt body upl r st'. app_put rt st (ObjectId i s) body upl = (r, st') \<and> status r = 200 \<longrightarrow>
             (\<exists>e. r = respond 200 (Document e) \<and> findById st' i = Some e))"
proof -
  have one: "app_get_one st (ObjectId i s) =
           respond 200 (Document (d\<lparr>props :=
             AList.update ''image'' (Str (''data:'' @ ct @ '';base64,'' @ base64 b)) (props d)\<rparr>))"
    using assms by (simp add: app_get_one_def dataUri_def templateStr_def)
  have "app_get_all st limit = respond 200 (Documents (take (length (docs st)) (docs st)))
      \<or> (\<exists>n. app_get_all st limit = respond 200 (Documents (take (nat \<bar>n\<bar>) (docs st))))"
    by (cases limit) (auto simp: app_get_all_def limitDocs_def)
  then have lst: "\<exists>n. app_get_all st limit = respond 200 (Documents (take n (docs st)))"
    by blast
  have nan: "app_get_all st NaN = respond 200 (Documents (docs st))"
    by (simp add: app_get_all_def)
  have post: "\<exists>e. r = respond 201 (Document e) \<and> findById st' j = Some e"
    if "app_post rt st j body upl = (r, st')" and "status r = 201" for rt j body upl r st'
    using app_post_created [OF that] by blast
  have put: "\<exists>e. r = respond 200 (Document e) \<and> findById st' i = Some e"
    if p: "app_put rt st (ObjectId i s) body upl = (r, st')" and "status r = 200"
    for rt body upl r st'
  proof -
    from app_put_frame [OF assms(1), where rt = rt and s = s and body = body and upl = upl]
    have "(status r = 500 \<and> st' = st) \<or>
          (\<exists>d'. r = respond 200 (Document d') \<and> findById st' i = Some d' \<and> oid d' = i \<and>
               (\<forall>k. k \<notin> fst ` set body \<and> (upl = None \<or> k \<notin> {''image'', ''contentType''}) \<longrightarrow>
                    map_of (props d') k = map_of (props d) k) \<and>
               (\<forall>j. j \<noteq> i \<longrightarrow> findById st' j = findById st j))"
      by (simp only: p prod.case)
    with that(2) show ?thesis by auto
  qed
  from one lst nan post put show ?thesis by blast
qed

theorem data_uri_only_on_fetch_witness:
  "app_get_one inline_state (ObjectId 7 ''7'') =
     respond 200 (Document (inline_doc\<lparr>props :=
       [(''title'', Str ''Mr''), (''image'', Str ''data:image/png;base64,UE5H''),
        (''name'', Str ''Ada''), (''designation'', Str ''Engineer''),
        (''dob'', DateVal 631152000000), (''address'', Str ''1 Main St''),
        (''contentType'', Str ''image/png'')]\<rparr>))
   \<and> app_get_all inline_state NaN = respond 200 (Documents [inline_doc])
   \<and> map_of (props inline_doc) ''image'' = Some (Buf ''PNG'')"
proof -
  have h1: "findById inline_state 7 = Some inline_doc"
    by (simp add: findById_def inline_state_def inline_doc_def)
  have h2: "map_of (props inline_doc) ''image'' = Some (Buf ''PNG'')"
    by (simp add: inline_doc_def)
  have h3: "map_of (props inline_doc) ''contentType'' = Some (Str ''image/png'')"
    by (simp add: inline_doc_def)
  have u: "AList.update ''image'' (Str ''data:image/png;base64,UE5H'') (props inline_doc) =
       [(''title'', Str ''Mr''), (''image'', Str ''data:image/png;base64,UE5H''),
        (''name'', Str ''Ada''), (''designation'', Str ''Engineer''),
        (''dob'', DateVal 631152000000), (''address'', Str ''1 Main St''),
        (''contentType'', Str ''image/png'')]"
    by (simp add: inline_doc_def)
  have d: "docs inline_state = [inline_doc]"
    by (simp add: inline_state_def)
  show ?thesis
    using data_uri_only_on_fetch [OF h1 h2 h3, of "''7''" NaN] h2
    by (simp add: b64char_def u [simplified] d)
qed

end
